theory Spec2Isabelle
  imports Main
begin

section \<open>Standup Raven: config store, submission store and command handlers\<close>

text \<open>
  A shallow embedding of \<^verbatim>\<open>server/standup/main.go\<close>,
  \<^verbatim>\<open>server/command/add_members.go\<close> and the report command
  (\<^verbatim>\<open>validateCommandStandup\<close>, \<^verbatim>\<open>executeCommandStandup\<close>).
  Go functions that mutate the Mattermost key-value store take a \<open>world\<close> and return the
  new one. Everything the sources call but do not define (the Mattermost plugin API, the
  clock, \<^verbatim>\<open>encoding/json\<close>, the key hash, package constants) is a field of the
  record \<open>env\<close>, so that every theorem holds for any behaviour of those collaborators
  unless a hypothesis says otherwise.
\<close>

subsection \<open>Errors and times\<close>

text \<open>
  A Go \<^verbatim>\<open>error\<close> value: \<open>New m\<close> is \<^verbatim>\<open>errors.New(m)\<close>, \<open>AppError m\<close> is a
  Mattermost \<^verbatim>\<open>*model.AppError\<close> whose \<^verbatim>\<open>Error()\<close> text is \<open>m\<close>. A nil error is
  \<open>None\<close> of \<open>error option\<close>.
\<close>

datatype error = New string | AppError string

fun Error :: "error \<Rightarrow> string" where
  "Error (New m) = m"
| "Error (AppError m) = m"

text \<open>A run-time panic of the Go program (it is not a returned error).\<close>

datatype panic = NilPointerDereference | InterfaceConversion | AssignmentToNilMap

text \<open>
  \<^verbatim>\<open>time.Time\<close> without a monotonic clock reading: seconds and nanoseconds of the
  instant and the location pointer (\<open>None\<close> is the nil pointer). The zero value of the
  struct is \<open>\<lparr>sec = 0, nsec = 0, loc = None\<rparr>\<close>; Go's \<^verbatim>\<open>==\<close> on the struct is
  equality of the record, \<^verbatim>\<open>After\<close> compares the instants only.
\<close>

record Time =
  sec :: int
  nsec :: int
  loc :: "string option"

definition After :: "Time \<Rightarrow> Time \<Rightarrow> bool" where
  "After t u = (sec t > sec u \<or> sec t = sec u \<and> nsec t > nsec u)"

text \<open>\<^verbatim>\<open>otime.OTime\<close> is a struct that embeds \<^verbatim>\<open>time.Time\<close>.\<close>

datatype OTime = OTime (Time: Time)

definition emptyTime :: OTime where
  "emptyTime = OTime \<lparr>sec = 0, nsec = 0, loc = None\<rparr>"

subsection \<open>Data model\<close>

text \<open>
  \<^verbatim>\<open>UserStandup.Standup\<close> is a \<^verbatim>\<open>map[string]*[]string\<close>. Its only use is a
  \<^verbatim>\<open>range\<close> loop, so it is the list of its entries in the order the loop visits them;
  a nil pointer is \<open>None\<close>.
\<close>

record UserStandup =
  UserID :: string
  ChannelID :: string
  Standup :: "(string \<times> string list option) list"

record StandupConfig =
  ChannelId :: string
  WindowOpenTime :: OTime
  WindowCloseTime :: OTime
  ReportFormat :: string
  Members :: "string list"
  Sections :: "string list"
  Enabled :: bool
  Timezone :: string
  WindowOpenReminderEnabled :: bool
  WindowCloseReminderEnabled :: bool

text \<open>
  \<^verbatim>\<open>model.CommandResponse\<close>, with the three fields the handlers set: \<^verbatim>\<open>ResponseType\<close>
  (who sees the response), \<^verbatim>\<open>Text\<close>, and \<^verbatim>\<open>Type\<close> (the type of the post). A field a
  handler does not set holds the empty string.
\<close>

record CommandResponse =
  ResponseType :: string
  Text :: string
  Type :: string

text \<open>
  \<^verbatim>\<open>Context.Props\<close>, a \<^verbatim>\<open>map[string]interface{}\<close> with the three keys the two
  commands use; \<open>None\<close> is a missing key.
\<close>

record Props =
  visibility :: "string option"
  dates :: "OTime list option"
  userIds :: "string list option"

definition emptyProps :: Props where
  "emptyProps = \<lparr>visibility = None, dates = None, userIds = None\<rparr>"

subsection \<open>The collaborators\<close>

text \<open>
  What the sources import and src/ does not hold. \<open>KVGetErr\<close>, \<open>KVSetErr\<close>,
  \<open>GetChannelErr\<close>, \<open>AddChannelMemberErr\<close> and \<open>SendStandupReportErr\<close> say which calls of
  the Mattermost API (and of the report sender) fail and with which error;
  \<open>GetUserByUsername\<close> returns the user's id. \<open>LoadLocationErr\<close> is the error of
  \<^verbatim>\<open>time.LoadLocation\<close>, \<open>Now\<close> is \<^verbatim>\<open>otime.Now\<close> (the current time in a zone),
  \<open>GetDateString\<close> and \<open>Format\<close> are the methods of \<^verbatim>\<open>OTime\<close>, \<open>Parse\<close> is
  \<^verbatim>\<open>time.Parse\<close>. The \<open>Marshal\<close> and \<open>Unmarshal\<close> fields are \<^verbatim>\<open>encoding/json\<close> at
  the three types that are stored; decoding the registry gives \<open>None\<close> for a nil map
  (the JSON value \<^verbatim>\<open>null\<close>). \<open>ToLowerUnicode\<close> is \<^verbatim>\<open>strings.ToLower\<close> on a string
  that is not all ASCII.
\<close>

record env =
  GetKeyHash :: "string \<Rightarrow> string"
  CacheKeyAllStandupChannels :: string
  CacheKeyPrefixTeamStandupConfig :: string
  ReportFormats :: "string list"
  SingularPlural :: "nat \<Rightarrow> string"
  KVGetErr :: "string \<Rightarrow> error option"
  KVSetErr :: "string \<Rightarrow> string \<Rightarrow> error option"
  GetChannelErr :: "string \<Rightarrow> error option"
  GetUserByUsername :: "string \<Rightarrow> error + string"
  AddChannelMemberErr :: "string \<Rightarrow> string \<Rightarrow> error option"
  SendStandupReportErr :: "string list \<Rightarrow> OTime \<Rightarrow> string \<Rightarrow> string \<Rightarrow> bool \<Rightarrow> error option"
  LoadLocationErr :: "string \<Rightarrow> error option"
  Now :: "string \<Rightarrow> OTime"
  GetDateString :: "OTime \<Rightarrow> string"
  Format :: "OTime \<Rightarrow> string \<Rightarrow> string"
  Parse :: "string \<Rightarrow> string \<Rightarrow> error + Time"
  MarshalConfig :: "StandupConfig \<Rightarrow> error + string"
  UnmarshalConfig :: "string \<Rightarrow> error + StandupConfig"
  MarshalUserStandup :: "UserStandup \<Rightarrow> error + string"
  UnmarshalUserStandup :: "string \<Rightarrow> error + UserStandup"
  MarshalChannels :: "(string \<rightharpoonup> string) \<Rightarrow> error + string"
  UnmarshalChannels :: "string \<Rightarrow> error + (string \<rightharpoonup> string) option"
  ToLowerUnicode :: "string \<Rightarrow> string"

text \<open>
  The state the handlers change: the plugin's key-value store (hashed key to bytes), the
  members of each chat channel (pairs of channel id and user id), and the calls of
  \<^verbatim>\<open>notification.SendStandupReport\<close> made so far, in order.
\<close>

record world =
  kv :: "string \<rightharpoonup> string"
  channelMembers :: "(string \<times> string) set"
  reportCalls :: "(string list \<times> OTime \<times> string \<times> string \<times> bool) list"

text \<open>
  \<^verbatim>\<open>config.Mattermost.KVGet\<close>: the bytes under the key, no bytes when the key is
  absent. \<^verbatim>\<open>KVSet\<close>: a failed write leaves the store as it was.
\<close>

definition KVGet :: "env \<Rightarrow> world \<Rightarrow> string \<Rightarrow> error + string" where
  "KVGet env w key =
     (case KVGetErr env key of
        Some appErr \<Rightarrow> Inl appErr
      | None \<Rightarrow> Inr (case kv w key of None \<Rightarrow> [] | Some data \<Rightarrow> data))"

definition KVSet :: "env \<Rightarrow> world \<Rightarrow> string \<Rightarrow> string \<Rightarrow> error option \<times> world" where
  "KVSet env w key val =
     (case KVSetErr env key val of
        Some appErr \<Rightarrow> (Some appErr, w)
      | None \<Rightarrow> (None, w\<lparr>kv := (kv w)(key \<mapsto> val)\<rparr>))"

text \<open>
  \<^verbatim>\<open>config.Mattermost.AddChannelMember\<close>: on success the user is a member of the
  channel.
\<close>

definition AddChannelMember :: "env \<Rightarrow> world \<Rightarrow> string \<Rightarrow> string \<Rightarrow> error option \<times> world" where
  "AddChannelMember env w channelID userId =
     (case AddChannelMemberErr env channelID userId of
        Some appErr \<Rightarrow> (Some appErr, w)
      | None \<Rightarrow> (None, w\<lparr>channelMembers := insert (channelID, userId) (channelMembers w)\<rparr>))"

text \<open>
  Modelled from the spec: \<^verbatim>\<open>notification.SendStandupReport\<close> is not under src/. The
  report assembler of section 4.5 delivers a report or fails; the model records the
  call and returns the error the collaborator gives for it.
\<close>

definition SendStandupReport ::
  "env \<Rightarrow> world \<Rightarrow> string list \<Rightarrow> OTime \<Rightarrow> string \<Rightarrow> string \<Rightarrow> bool \<Rightarrow> error option \<times> world" where
  "SendStandupReport env w channelIDs date vis userId updateStatus =
     (SendStandupReportErr env channelIDs date vis userId updateStatus,
      w\<lparr>reportCalls := reportCalls w @ [(channelIDs, date, vis, userId, updateStatus)]\<rparr>)"

subsection \<open>Helpers of other packages\<close>

text \<open>
  Modelled from the spec: \<^verbatim>\<open>util.Max\<close> is not under src/. It is the larger of two
  integers: section 3 asks that at least one section holds at least one entry, which is
  what a positive maximum of the section lengths says.
\<close>

definition util_Max :: "nat \<Rightarrow> nat \<Rightarrow> nat" where
  "util_Max a b = (if a < b then b else a)"

text \<open>
  Modelled from the spec: \<^verbatim>\<open>util.ContainsDuplicates\<close> is not under src/. Section 3
  asks for no duplicate sections and no duplicate members; the helper walks the list,
  remembers what it has seen, and returns the first item it sees again together with
  \<open>True\<close>, or the empty string and \<open>False\<close>.
\<close>

fun ContainsDuplicates_from :: "string list \<Rightarrow> string list \<Rightarrow> string \<times> bool" where
  "ContainsDuplicates_from seen [] = ([], False)"
| "ContainsDuplicates_from seen (item # rest) =
     (if item \<in> set seen then (item, True) else ContainsDuplicates_from (item # seen) rest)"

definition ContainsDuplicates :: "string list \<Rightarrow> string \<times> bool" where
  "ContainsDuplicates list = ContainsDuplicates_from [] list"

text \<open>
  \<^verbatim>\<open>funk.UniqString\<close> (go-funk): one pass with a set of the values seen; a value is
  kept where it occurs first.
\<close>

fun UniqString_from :: "string list \<Rightarrow> string list \<Rightarrow> string list" where
  "UniqString_from seen [] = []"
| "UniqString_from seen (v # rest) =
     (if v \<in> set seen then UniqString_from seen rest else v # UniqString_from (v # seen) rest)"

definition UniqString :: "string list \<Rightarrow> string list" where
  "UniqString a = UniqString_from [] a"

text \<open>\<^verbatim>\<open>strings.Join\<close>.\<close>

fun Join :: "string list \<Rightarrow> string \<Rightarrow> string" where
  "Join [] sep = []"
| "Join [x] sep = x"
| "Join (x # y # rest) sep = x @ sep @ Join (y # rest) sep"

subsection \<open>\<^verbatim>\<open>standup/main.go\<close>\<close>

definition standupSectionsMinLength :: nat where
  "standupSectionsMinLength = 1"

text \<open>
  The loop of \<^verbatim>\<open>UserStandup.IsValid\<close> over the sections; \<^verbatim>\<open>*sectionTasks\<close> panics
  on a nil pointer.
\<close>

fun maxLen_loop :: "nat \<Rightarrow> (string \<times> string list option) list \<Rightarrow> panic + nat" where
  "maxLen_loop maxLen [] = Inr maxLen"
| "maxLen_loop maxLen ((section, sectionTasks) # rest) =
     (case sectionTasks of
        None \<Rightarrow> Inl NilPointerDereference
      | Some tasks \<Rightarrow> maxLen_loop (util_Max maxLen (length tasks)) rest)"

definition UserStandup_IsValid :: "env \<Rightarrow> UserStandup \<Rightarrow> panic + error option" where
  "UserStandup_IsValid env us =
     (if UserID us = [] then Inr (Some (New ''No user ID specified in standup''))
      else if ChannelID us = [] then Inr (Some (New ''No channels ID specified in standup''))
      else if GetChannelErr env (ChannelID us) \<noteq> None
        then Inr (Some (New (''No channel found with channel ID: '' @ ChannelID us)))
      else (case maxLen_loop 0 (Standup us) of
              Inl p \<Rightarrow> Inl p
            | Inr maxLen \<Rightarrow>
                if maxLen = 0
                then Inr (Some (New ''No tasks found. Please specify tasks for at least one section''))
                else Inr None))"

definition StandupConfig_IsValid :: "env \<Rightarrow> StandupConfig \<Rightarrow> error option" where
  "StandupConfig_IsValid env sc =
     (if ChannelId sc = [] then Some (New ''Channel ID cannot be empty'')
      else if WindowOpenTime sc = emptyTime then Some (New ''window open time cannot be empty'')
      else if WindowCloseTime sc = emptyTime then Some (New ''window close time cannot be empty'')
      else if After (Time (WindowOpenTime sc)) (Time (WindowCloseTime sc))
        then Some (New ''Window open time cannot be after window close time'')
      else if Timezone sc = [] then Some (New ''Timezone cannot be empty'')
      else if ReportFormat sc \<notin> set (ReportFormats env)
        then Some (New (''Invalid report format specified. Report format should be one of: ''
               @ [CHR 0x22] @ Join (ReportFormats env) [CHR 0x22, CHR '','', CHR '' '', CHR 0x22]
               @ [CHR 0x22]))
      else if LoadLocationErr env (Timezone sc) \<noteq> None
        then Some (New (''Invalid timezone specified : '' @ [CHR 0x22] @ Timezone sc @ [CHR 0x22]))
      else if length (Sections sc) < standupSectionsMinLength
        then Some (New (''Too few sections in standup. Required at least 1 section''
               @ SingularPlural env standupSectionsMinLength @ ''.''))
      else if snd (ContainsDuplicates (Sections sc))
        then Some (New (''duplicate sections are not allowed. Contains duplicate section ''
               @ [CHR 0x27] @ fst (ContainsDuplicates (Sections sc)) @ [CHR 0x27]))
      else if snd (ContainsDuplicates (Members sc))
        then Some (New (''duplicate members are not allowed. Contains duplicate member ''
               @ [CHR 0x27] @ fst (ContainsDuplicates (Members sc)) @ [CHR 0x27]))
      else None)"

text \<open>
  \<^verbatim>\<open>GetStandupChannels\<close> returns a map, which is nil (\<open>None\<close>) when the stored bytes
  decode to a nil map; \<^verbatim>\<open>AddStandupChannel\<close> then panics on the assignment to an entry
  of a nil map.
\<close>

definition GetStandupChannels :: "env \<Rightarrow> world \<Rightarrow> error + (string \<rightharpoonup> string) option" where
  "GetStandupChannels env w =
     (case KVGet env w (GetKeyHash env (CacheKeyAllStandupChannels env)) of
        Inl appErr \<Rightarrow> Inl (New (Error appErr))
      | Inr data \<Rightarrow>
          if length data > 0
          then (case UnmarshalChannels env data of
                  Inl err \<Rightarrow> Inl err
                | Inr channels \<Rightarrow> Inr channels)
          else Inr (Some Map.empty))"

definition setStandupChannels :: "env \<Rightarrow> world \<Rightarrow> (string \<rightharpoonup> string) \<Rightarrow> error option \<times> world" where
  "setStandupChannels env w channels =
     (case MarshalChannels env channels of
        Inl err \<Rightarrow> (Some err, w)
      | Inr data \<Rightarrow>
          (case KVSet env w (GetKeyHash env (CacheKeyAllStandupChannels env)) data of
             (Some appErr, w') \<Rightarrow> (Some (New (Error appErr)), w')
           | (None, w') \<Rightarrow> (None, w')))"

definition AddStandupChannel :: "env \<Rightarrow> world \<Rightarrow> string \<Rightarrow> panic + (error option \<times> world)" where
  "AddStandupChannel env w channelID =
     (case GetStandupChannels env w of
        Inl err \<Rightarrow> Inr (Some err, w)
      | Inr None \<Rightarrow> Inl AssignmentToNilMap
      | Inr (Some channels) \<Rightarrow> Inr (setStandupChannels env w (channels(channelID \<mapsto> channelID))))"

definition GetStandupConfig :: "env \<Rightarrow> world \<Rightarrow> string \<Rightarrow> error + StandupConfig option" where
  "GetStandupConfig env w channelID =
     (let key = CacheKeyPrefixTeamStandupConfig env @ channelID in
      case KVGet env w (GetKeyHash env key) of
        Inl appErr \<Rightarrow> Inl (New (Error appErr))
      | Inr data \<Rightarrow>
          if length data = 0 then Inr None
          else (case UnmarshalConfig env data of
                  Inl err \<Rightarrow> Inl err
                | Inr standupConfig \<Rightarrow> Inr (Some standupConfig)))"

text \<open>
  \<^verbatim>\<open>SaveStandupConfig\<close> overwrites \<^verbatim>\<open>Members\<close> of the config it is given and returns
  that config.
\<close>

definition SaveStandupConfig :: "env \<Rightarrow> world \<Rightarrow> StandupConfig \<Rightarrow> (error + StandupConfig) \<times> world" where
  "SaveStandupConfig env w standupConfig0 =
     (let standupConfig = standupConfig0\<lparr>Members := UniqString (Members standupConfig0)\<rparr> in
      case MarshalConfig env standupConfig of
        Inl err \<Rightarrow> (Inl err, w)
      | Inr serializedStandupConfig \<Rightarrow>
          (let key = CacheKeyPrefixTeamStandupConfig env @ ChannelId standupConfig in
           case KVSet env w (GetKeyHash env key) serializedStandupConfig of
             (Some err, w') \<Rightarrow> (Inl err, w')
           | (None, w') \<Rightarrow> (Inr standupConfig, w')))"

definition SaveUserStandup :: "env \<Rightarrow> world \<Rightarrow> UserStandup \<Rightarrow> error option \<times> world" where
  "SaveUserStandup env w userStandup =
     (case GetStandupConfig env w (ChannelID userStandup) of
        Inl err \<Rightarrow> (Some err, w)
      | Inr None \<Rightarrow>
          (Some (New (''standup not configured for channel: '' @ ChannelID userStandup)), w)
      | Inr (Some standupConfig) \<Rightarrow>
          (let key = GetDateString env (Now env (Timezone standupConfig)) @ ''_''
                       @ ChannelID userStandup @ UserID userStandup in
           case MarshalUserStandup env userStandup of
             Inl err \<Rightarrow> (Some err, w)
           | Inr bytes \<Rightarrow>
               (case KVSet env w (GetKeyHash env key) bytes of
                  (Some appErr, w') \<Rightarrow> (Some appErr, w')
                | (None, w') \<Rightarrow> (None, w'))))"

definition GetUserStandup :: "env \<Rightarrow> world \<Rightarrow> string \<Rightarrow> string \<Rightarrow> OTime \<Rightarrow> error + UserStandup option" where
  "GetUserStandup env w userID channelID date =
     (let key = GetDateString env date @ ''_'' @ channelID @ userID in
      case KVGet env w (GetKeyHash env key) of
        Inl appErr \<Rightarrow> Inl (New (Error appErr))
      | Inr data \<Rightarrow>
          if length data = 0 then Inr None
          else (case UnmarshalUserStandup env data of
                  Inl err \<Rightarrow> Inl err
                | Inr userStandup \<Rightarrow> Inr (Some userStandup)))"

subsection \<open>Helpers of the command package\<close>

text \<open>
  Modelled from the spec: \<^verbatim>\<open>util.SendEphemeralText\<close> is not under src/. Section 7
  says a command answers with a short message for the user instead of raising an error:
  the helper returns an ephemeral response with the text and a nil \<^verbatim>\<open>*model.AppError\<close>.
  The handlers below return the response only (\<open>None\<close> is a nil response); the
  \<^verbatim>\<open>*model.AppError\<close> they return beside it is nil on every path.
\<close>

definition COMMAND_RESPONSE_TYPE_EPHEMERAL :: string where
  "COMMAND_RESPONSE_TYPE_EPHEMERAL = ''ephemeral''"

definition SendEphemeralText :: "string \<Rightarrow> CommandResponse" where
  "SendEphemeralText msg = \<lparr>ResponseType = COMMAND_RESPONSE_TYPE_EPHEMERAL, Text = msg, Type = []\<rparr>"

text \<open>
  Modelled from the spec: the constants \<^verbatim>\<open>notification.ReportVisibilityPublic\<close> and
  \<^verbatim>\<open>notification.ReportVisibilityPrivate\<close> are not under src/. Section 6 gives the two
  visibility tokens as \<^verbatim>\<open>public\<close> and \<^verbatim>\<open>private\<close>.
\<close>

definition ReportVisibilityPublic :: string where
  "ReportVisibilityPublic = ''public''"

definition ReportVisibilityPrivate :: string where
  "ReportVisibilityPrivate = ''private''"

text \<open>
  \<^verbatim>\<open>strings.TrimLeft\<close> removes every leading byte that is in the cutset.
  \<^verbatim>\<open>strings.ToLower\<close> has two paths. On a string of ASCII bytes it maps the capitals
  \<^verbatim>\<open>A\<close> to \<^verbatim>\<open>Z\<close> and keeps every other byte. On any other string it maps every code
  point with \<^verbatim>\<open>unicode.ToLower\<close> (which sends, for one, U+0130 to \<^verbatim>\<open>i\<close>); that path is
  the collaborator \<open>ToLowerUnicode\<close>.
\<close>

definition TrimLeft :: "string \<Rightarrow> string \<Rightarrow> string" where
  "TrimLeft s cutset = dropWhile (\<lambda>c. c \<in> set cutset) s"

definition toLower_byte :: "char \<Rightarrow> char" where
  "toLower_byte c =
     (if (65::nat) \<le> of_char c \<and> of_char c \<le> (90::nat) then char_of (of_char c + (32::nat)) else c)"

definition isASCII :: "string \<Rightarrow> bool" where
  "isASCII s = list_all (\<lambda>c. (of_char c :: nat) < 128) s"

definition ToLower :: "env \<Rightarrow> string \<Rightarrow> string" where
  "ToLower env s = (if isASCII s then map toLower_byte s else ToLowerUnicode env s)"

text \<open>The verb \<^verbatim>\<open>%d\<close> of \<^verbatim>\<open>fmt.Sprintf\<close> at a length.\<close>

fun Itoa :: "nat \<Rightarrow> string" where
  "Itoa n = (if n < 10 then [char_of (48 + n)] else Itoa (n div 10) @ [char_of (48 + n mod 10)])"

declare Itoa.simps [simp del]

subsection \<open>\<^verbatim>\<open>command/add_members.go\<close>\<close>

text \<open>
  The loop of \<^verbatim>\<open>validateAddMembers\<close>. The Go map \<^verbatim>\<open>userIds\<close> is the list of its
  entries in the order they were added; \<^verbatim>\<open>funk.Values\<close> returns the values in the
  order of Go's map iteration, which Go leaves open, and the model returns them in the
  order of insertion.
\<close>

fun validateAddMembers_loop ::
  "env \<Rightarrow> (string \<times> string) list \<Rightarrow> string list \<Rightarrow> CommandResponse + (string \<times> string) list" where
  "validateAddMembers_loop env userIdsMap [] = Inr userIdsMap"
| "validateAddMembers_loop env userIdsMap (username0 # rest) =
     (let username = TrimLeft username0 ''@'' in
      if map_of userIdsMap username \<noteq> None then validateAddMembers_loop env userIdsMap rest
      else (case GetUserByUsername env username of
              Inl err \<Rightarrow> Inl (SendEphemeralText (''Couldn't find user with username: '' @ username))
            | Inr userId \<Rightarrow> validateAddMembers_loop env (userIdsMap @ [(username, userId)]) rest))"

definition validateAddMembers :: "env \<Rightarrow> string list \<Rightarrow> Props \<Rightarrow> CommandResponse option \<times> Props" where
  "validateAddMembers env args props =
     (if length args < 1 then (Some (SendEphemeralText ''Please specify at least one user to add''), props)
      else (case validateAddMembers_loop env [] args of
              Inl response \<Rightarrow> (Some response, props)
            | Inr userIdsMap \<Rightarrow> (None, props\<lparr>userIds := Some (map snd userIdsMap)\<rparr>)))"

fun addChannelMembers_loop ::
  "env \<Rightarrow> world \<Rightarrow> string \<Rightarrow> string list \<Rightarrow> string list \<Rightarrow> string list
     \<Rightarrow> (string list \<times> string list) \<times> world" where
  "addChannelMembers_loop env w channelID addedUsers notAddedUsers [] =
     ((addedUsers, notAddedUsers), w)"
| "addChannelMembers_loop env w channelID addedUsers notAddedUsers (userId # rest) =
     (case AddChannelMember env w channelID userId of
        (Some appErr, w') \<Rightarrow>
          addChannelMembers_loop env w' channelID addedUsers (notAddedUsers @ [userId]) rest
      | (None, w') \<Rightarrow>
          addChannelMembers_loop env w' channelID (addedUsers @ [userId]) notAddedUsers rest)"

definition addChannelMembers ::
  "env \<Rightarrow> world \<Rightarrow> string list \<Rightarrow> string \<Rightarrow> (string list \<times> string list) \<times> world" where
  "addChannelMembers env w userIdList channelID =
     addChannelMembers_loop env w channelID [] [] userIdList"

definition addStandupMembers :: "env \<Rightarrow> world \<Rightarrow> string list \<Rightarrow> string \<Rightarrow> error option \<times> world" where
  "addStandupMembers env w usernames channelID =
     (case GetStandupConfig env w channelID of
        Inl err \<Rightarrow> (Some err, w)
      | Inr None \<Rightarrow> (Some (New ''standup is not configured for this channel''), w)
      | Inr (Some standupConfig) \<Rightarrow>
          (case SaveStandupConfig env w (standupConfig\<lparr>Members := Members standupConfig @ usernames\<rparr>) of
             (Inl err, w') \<Rightarrow> (Some err, w')
           | (Inr saved, w') \<Rightarrow> (None, w')))"

definition buildSuccessMessage :: "string list \<Rightarrow> string list \<Rightarrow> string" where
  "buildSuccessMessage addedUsers notAddedUsers =
     (let text0 = Itoa (length addedUsers) @ '' users added successfully.'' in
      if length notAddedUsers > 0
      then text0 @ '' Following users couldn't be added: '' @ Join notAddedUsers '', ''
             @ [CHR 0x0A] @ ''Make sure these users users exist on the system.''
      else text0)"

text \<open>
  \<^verbatim>\<open>executeAddMembers\<close>; the type assertion on \<^verbatim>\<open>context.Props["userIds"]\<close> panics
  when the key is missing. The response of the success path sets the field \<^verbatim>\<open>Type\<close>,
  not \<^verbatim>\<open>ResponseType\<close>.
\<close>

definition executeAddMembers :: "env \<Rightarrow> world \<Rightarrow> Props \<Rightarrow> string \<Rightarrow> panic + (CommandResponse \<times> world)" where
  "executeAddMembers env w props channelId =
     (case userIds props of
        None \<Rightarrow> Inl InterfaceConversion
      | Some userIdList \<Rightarrow>
          (case addChannelMembers env w userIdList channelId of
             ((addedUsers, notAddedUsers), w1) \<Rightarrow>
               (case addStandupMembers env w1 addedUsers channelId of
                  (Some err, w2) \<Rightarrow>
                    Inr (SendEphemeralText (''Error occurred while adding standup members: '' @ Error err), w2)
                | (None, w2) \<Rightarrow>
                    Inr (\<lparr>ResponseType = [],
                          Text = buildSuccessMessage addedUsers notAddedUsers,
                          Type = COMMAND_RESPONSE_TYPE_EPHEMERAL\<rparr>, w2))))"

subsection \<open>The report command\<close>

definition dateLayout :: string where
  "dateLayout = ''02-01-2006''"

text \<open>
  The loop of \<^verbatim>\<open>validateCommandStandup\<close> over all arguments but the last: the slice
  \<open>ds\<close> is \<^verbatim>\<open>context.Props["dates"]\<close>, written at index \<open>count\<close>.
\<close>

fun dates_loop ::
  "env \<Rightarrow> OTime list \<Rightarrow> nat \<Rightarrow> string list \<Rightarrow> CommandResponse option \<times> OTime list \<times> nat" where
  "dates_loop env ds count [] = (None, ds, count)"
| "dates_loop env ds count (arg # rest) =
     (case Parse env dateLayout arg of
        Inl err \<Rightarrow>
          (Some (SendEphemeralText (''Error parsing this date: '' @ arg
                   @ ''. Please specify date in format: DD-MM-YYYY'')), ds, count)
      | Inr t \<Rightarrow> dates_loop env (ds[count := OTime t]) (Suc count) rest)"

text \<open>
  After the defaulting \<open>args\<close> has at least two elements, so \<^verbatim>\<open>args[len(args)-1]\<close> is
  \<open>last args\<close> and \<^verbatim>\<open>args[0 : len(args)-1]\<close> is \<open>butlast args\<close>. A fresh slice of
  \<^verbatim>\<open>OTime\<close> holds zero values, which is \<open>emptyTime\<close>.
\<close>

definition validateCommandStandup ::
  "env \<Rightarrow> world \<Rightarrow> string list \<Rightarrow> Props \<Rightarrow> string \<Rightarrow> CommandResponse option \<times> Props" where
  "validateCommandStandup env w args0 props channelId =
     (case GetStandupConfig env w channelId of
        Inl err \<Rightarrow> (Some (SendEphemeralText ''Error getting standup config of the channel''), props)
      | Inr None \<Rightarrow> (Some (SendEphemeralText ''Standup not configured for the channel''), props)
      | Inr (Some standupConfig) \<Rightarrow>
          (let args =
                 (if length args0 = 0
                  then [Format env (Now env (Timezone standupConfig)) dateLayout, ReportVisibilityPrivate]
                  else if length args0 = 1
                  then (let lastArg = ToLower env (last args0) in
                        if lastArg \<noteq> ReportVisibilityPublic \<and> lastArg \<noteq> ReportVisibilityPrivate
                        then args0 @ [ReportVisibilityPrivate]
                        else [Format env (Now env (Timezone standupConfig)) dateLayout, lastArg])
                  else args0);
               props1 = props\<lparr>visibility := Some (ToLower env (last args))\<rparr>
           in case dates_loop env (replicate (length args) emptyTime) 0 (butlast args) of
                (Some response, ds, count) \<Rightarrow> (Some response, props1\<lparr>dates := Some ds\<rparr>)
              | (None, ds, count) \<Rightarrow> (None, props1\<lparr>dates := Some (take count ds)\<rparr>)))"

text \<open>
  The loop of \<^verbatim>\<open>executeCommandStandup\<close>: the body of the \<^verbatim>\<open>if err != nil\<close> is empty,
  so both outcomes go on with the next date.
\<close>

fun executeCommandStandup_loop ::
  "env \<Rightarrow> world \<Rightarrow> string \<Rightarrow> string \<Rightarrow> string \<Rightarrow> OTime list \<Rightarrow> world" where
  "executeCommandStandup_loop env w channelId vis userId [] = w"
| "executeCommandStandup_loop env w channelId vis userId (date # rest) =
     (case SendStandupReport env w [channelId] date vis userId False of
        (Some err, w') \<Rightarrow> executeCommandStandup_loop env w' channelId vis userId rest
      | (None, w') \<Rightarrow> executeCommandStandup_loop env w' channelId vis userId rest)"

definition executeCommandStandup ::
  "env \<Rightarrow> world \<Rightarrow> Props \<Rightarrow> string \<Rightarrow> string \<Rightarrow> panic + (CommandResponse \<times> world)" where
  "executeCommandStandup env w props channelId userId =
     (case visibility props of
        None \<Rightarrow> Inl InterfaceConversion
      | Some vis \<Rightarrow>
          (case dates props of
             None \<Rightarrow> Inl InterfaceConversion
           | Some ds \<Rightarrow>
               Inr (\<lparr>ResponseType = COMMAND_RESPONSE_TYPE_EPHEMERAL,
                     Text = ''Standup reports generated'', Type = []\<rparr>,
                    executeCommandStandup_loop env w channelId vis userId ds)))"

text \<open>
  \<^verbatim>\<open>Plugin.ExecuteCommand\<close> runs a command's \<^verbatim>\<open>Validate\<close> on a fresh context and
  returns its response when there is one; otherwise it runs \<^verbatim>\<open>Execute\<close> on the same
  context. \<^verbatim>\<open>command.Master\<close>, which picks the command, is not under src/; this is
  the sequence for the \<^verbatim>\<open>addmembers\<close> command.
\<close>

definition ExecuteCommand_addmembers ::
  "env \<Rightarrow> world \<Rightarrow> string list \<Rightarrow> string \<Rightarrow> panic + (CommandResponse \<times> world)" where
  "ExecuteCommand_addmembers env w params channelId =
     (case validateAddMembers env params emptyProps of
        (Some response, props) \<Rightarrow> Inr (response, w)
      | (None, props) \<Rightarrow> executeAddMembers env w props channelId)"

subsection \<open>A concrete environment\<close>

text \<open>
  One environment, used to run the definitions on concrete inputs. One channel
  (\<^verbatim>\<open>town-square\<close>), two users (\<^verbatim>\<open>alice\<close>, \<^verbatim>\<open>bob\<close>), a clock that stands on
  1 January 2024, a store that never fails, a report sender that fails for
  1 January 2024, and a chat server that refuses to add \<^verbatim>\<open>bob\<close> to a channel. Its JSON
  coder writes an abbreviated document and reads back the documents of \<open>demoConfig\<close>
  and \<open>demoStandup\<close>; of a registry it writes and reads the entries of the channels
  \<^verbatim>\<open>off-topic\<close> and \<^verbatim>\<open>town-square\<close>. Beyond ASCII its \<open>ToLowerUnicode\<close> knows
  one string, \<^verbatim>\<open>PUBL\<close> U+0130 \<^verbatim>\<open>C\<close> in UTF-8, which Go lowers to \<^verbatim>\<open>public\<close>.
\<close>

definition nineAM :: OTime where
  "nineAM = OTime \<lparr>sec = 32400, nsec = 0, loc = None\<rparr>"

definition fivePM :: OTime where
  "fivePM = OTime \<lparr>sec = 61200, nsec = 0, loc = None\<rparr>"

definition jan1 :: OTime where
  "jan1 = OTime \<lparr>sec = 1704067200, nsec = 0, loc = None\<rparr>"

definition jan2 :: OTime where
  "jan2 = OTime \<lparr>sec = 1704153600, nsec = 0, loc = None\<rparr>"

definition demoConfig :: StandupConfig where
  "demoConfig =
     \<lparr>ChannelId = ''town-square'', WindowOpenTime = nineAM, WindowCloseTime = fivePM,
      ReportFormat = ''user_aggregated'', Members = [''id-alice'', ''id-bob''],
      Sections = [''Yesterday'', ''Today''], Enabled = True, Timezone = ''Asia/Kolkata'',
      WindowOpenReminderEnabled = True, WindowCloseReminderEnabled = True\<rparr>"

definition sameTimeConfig :: StandupConfig where
  "sameTimeConfig = demoConfig\<lparr>WindowCloseTime := nineAM\<rparr>"

definition noSectionConfig :: StandupConfig where
  "noSectionConfig = demoConfig\<lparr>Sections := []\<rparr>"

definition dupMembersConfig :: StandupConfig where
  "dupMembersConfig = demoConfig\<lparr>Members := [''id-alice'', ''id-bob'', ''id-alice'']\<rparr>"

definition demoStandup :: UserStandup where
  "demoStandup =
     \<lparr>UserID = ''id-alice'', ChannelID = ''town-square'',
      Standup = [(''Yesterday'', Some []), (''Today'', Some [''ship the release''])]\<rparr>"

definition blankStandup :: UserStandup where
  "blankStandup = demoStandup\<lparr>Standup := [(''Today'', Some [[]])]\<rparr>"

definition demoEnv :: env where
  "demoEnv =
     \<lparr>GetKeyHash = (\<lambda>key. ''#'' @ key),
      CacheKeyAllStandupChannels = ''all_standup_channels'',
      CacheKeyPrefixTeamStandupConfig = ''standup_config_'',
      ReportFormats = [''user_aggregated'', ''type_aggregated''],
      SingularPlural = (\<lambda>n. if n = 1 then [] else ''s''),
      KVGetErr = (\<lambda>key. None),
      KVSetErr = (\<lambda>key val. None),
      GetChannelErr = (\<lambda>c. if c = ''town-square'' then None else Some (AppError ''channel not found'')),
      GetUserByUsername =
        (\<lambda>u. if u = ''alice'' then Inr ''id-alice''
              else if u = ''bob'' then Inr ''id-bob''
              else Inl (AppError ''user not found'')),
      AddChannelMemberErr =
        (\<lambda>c u. if u = ''id-bob'' then Some (AppError ''cannot add user'') else None),
      SendStandupReportErr =
        (\<lambda>cs d v u b. if d = jan1 then Some (New ''report not delivered'') else None),
      LoadLocationErr =
        (\<lambda>tz. if tz = ''Asia/Kolkata'' then None else Some (New ''unknown time zone'')),
      Now = (\<lambda>tz. OTime \<lparr>sec = 1704100000, nsec = 0, loc = Some tz\<rparr>),
      GetDateString =
        (\<lambda>t. if sec (Time t) div 86400 = 19723 then ''20240101'' else ''20240102''),
      Format =
        (\<lambda>t layout. if sec (Time t) div 86400 = 19723 then ''01-01-2024'' else ''02-01-2024''),
      Parse =
        (\<lambda>layout v. if v = ''01-01-2024'' then Inr (Time jan1)
                     else if v = ''02-01-2024'' then Inr (Time jan2)
                     else Inl (New ''cannot parse time'')),
      MarshalConfig = (\<lambda>c. Inr (''{channelId:'' @ ChannelId c @ ''}'')),
      UnmarshalConfig =
        (\<lambda>d. if d = ''{channelId:town-square}'' then Inr demoConfig
              else Inl (New ''invalid character'')),
      MarshalUserStandup = (\<lambda>u. Inr (''{userId:'' @ UserID u @ ''}'')),
      UnmarshalUserStandup =
        (\<lambda>d. if d = ''{userId:id-alice}'' then Inr demoStandup
              else Inl (New ''invalid character'')),
      MarshalChannels =
        (\<lambda>m. Inr (''{'' @ (if m ''off-topic'' = Some ''off-topic'' then ''off-topic;'' else [])
                      @ (if m ''town-square'' = Some ''town-square'' then ''town-square;'' else [])
                      @ ''}'')),
      UnmarshalChannels =
        (\<lambda>d. if d = ''{off-topic;town-square;}''
              then Inr (Some [''off-topic'' \<mapsto> ''off-topic'', ''town-square'' \<mapsto> ''town-square''])
              else if d = ''{town-square;}'' then Inr (Some [''town-square'' \<mapsto> ''town-square''])
              else if d = ''{off-topic;}'' then Inr (Some [''off-topic'' \<mapsto> ''off-topic''])
              else if d = ''{}'' then Inr (Some Map.empty)
              else if d = ''null'' then Inr None
              else Inl (New ''invalid character'')),
      ToLowerUnicode =
        (\<lambda>s. if s = ''PUBL'' @ [CHR 0xC4, CHR 0xB0] @ ''C'' then ''public'' else s)\<rparr>"

definition emptyWorld :: world where
  "emptyWorld = \<lparr>kv = Map.empty, channelMembers = {}, reportCalls = []\<rparr>"

definition configuredWorld :: world where
  "configuredWorld =
     emptyWorld\<lparr>kv := [''#standup_config_town-square'' \<mapsto> ''{channelId:town-square}'']\<rparr>"

definition registeredWorld :: world where
  "registeredWorld = emptyWorld\<lparr>kv := [''#all_standup_channels'' \<mapsto> ''{off-topic;}'']\<rparr>"

definition reportProps :: Props where
  "reportProps = emptyProps\<lparr>visibility := Some ''private'', dates := Some [jan1, jan2]\<rparr>"

definition emptyStandup :: UserStandup where
  "emptyStandup = demoStandup\<lparr>Standup := [(''Yesterday'', Some []), (''Today'', Some [])]\<rparr>"

subsection \<open>A coder that keeps the hour and the minute of a window time\<close>

text \<open>
  Modelled from the spec: the JSON methods of \<^verbatim>\<open>otime.OTime\<close>, which \<^verbatim>\<open>encoding/json\<close>
  calls for the two window times of a config, are not under src/. Section 3 makes a
  window time a time-of-day value (hour:minute): the stored form of a window time holds
  its hour and its minute and nothing else. \<open>minuteOfDay zone t\<close> is that value in minutes
  from midnight, read in the zone of \<open>t\<close> (\<open>zone name instant\<close> is the offset of a zone
  from UTC in seconds, the nil location is UTC, and \<open>sec\<close> counts from Go's zero instant,
  a midnight in UTC). \<open>windowTimeOfMinute m\<close> is the time that reading the stored form
  gives: that hour and minute with no seconds, on the date and in the zone that
  \<^verbatim>\<open>time.Parse\<close> gives a layout without a date, 1 January of year 0 in UTC, which is
  31622400 seconds before the zero instant.
\<close>

definition minuteOfDay :: "(string \<Rightarrow> int \<Rightarrow> int) \<Rightarrow> OTime \<Rightarrow> nat" where
  "minuteOfDay zone t =
     (let offset = (case loc (Time t) of None \<Rightarrow> 0 | Some name \<Rightarrow> zone name (sec (Time t)))
      in nat (((sec (Time t) + offset) mod 86400) div 60))"

definition windowTimeOfMinute :: "nat \<Rightarrow> OTime" where
  "windowTimeOfMinute m = OTime \<lparr>sec = int (60 * m) - 31622400, nsec = 0, loc = None\<rparr>"

text \<open>
  Modelled from the spec: section 2 gives the persistence layer a serialization contract
  over opaque byte blobs. \<open>encodeConfig\<close> and \<open>decodeConfig\<close> stand for \<^verbatim>\<open>json.Marshal\<close>
  and \<^verbatim>\<open>json.Unmarshal\<close> at \<^verbatim>\<open>StandupConfig\<close>: every field of the struct is written, in
  the order of the struct, a window time as its minute of the day. The bytes are the
  coder's own (a string has its length in front, a list its number of elements), since
  the program never looks into them.
\<close>

definition writeField :: "string \<Rightarrow> string" where
  "writeField s = Itoa (length s) @ '':'' @ s"

definition writeList :: "string list \<Rightarrow> string" where
  "writeList xs = Itoa (length xs) @ ''#'' @ concat (map writeField xs)"

definition writeBool :: "bool \<Rightarrow> string" where
  "writeBool b = (if b then ''T'' else ''F'')"

definition writeMinute :: "nat \<Rightarrow> string" where
  "writeMinute m = Itoa m @ '';''"

definition encodeConfig :: "(string \<Rightarrow> int \<Rightarrow> int) \<Rightarrow> StandupConfig \<Rightarrow> string" where
  "encodeConfig zone c =
     writeField (ChannelId c) @ writeMinute (minuteOfDay zone (WindowOpenTime c))
     @ writeMinute (minuteOfDay zone (WindowCloseTime c)) @ writeField (ReportFormat c)
     @ writeList (Members c) @ writeList (Sections c) @ writeBool (Enabled c)
     @ writeField (Timezone c) @ writeBool (WindowOpenReminderEnabled c)
     @ writeBool (WindowCloseReminderEnabled c)"

definition isDigit :: "char \<Rightarrow> bool" where
  "isDigit c = ((48::nat) \<le> of_char c \<and> of_char c \<le> (57::nat))"

fun readNat :: "nat \<Rightarrow> string \<Rightarrow> nat \<times> string" where
  "readNat n [] = (n, [])"
| "readNat n (c # cs) =
     (if isDigit c then readNat (10 * n + (of_char c - 48)) cs else (n, c # cs))"

definition readField :: "string \<Rightarrow> (string \<times> string) option" where
  "readField s =
     (case readNat 0 s of
        (n, c # rest) \<Rightarrow>
          if c = CHR '':'' \<and> n \<le> length rest then Some (take n rest, drop n rest) else None
      | (n, []) \<Rightarrow> None)"

fun readFields :: "nat \<Rightarrow> string \<Rightarrow> (string list \<times> string) option" where
  "readFields 0 s = Some ([], s)"
| "readFields (Suc n) s =
     (case readField s of
        None \<Rightarrow> None
      | Some (x, rest) \<Rightarrow>
          (case readFields n rest of
             None \<Rightarrow> None
           | Some (xs, rest') \<Rightarrow> Some (x # xs, rest')))"

definition readList :: "string \<Rightarrow> (string list \<times> string) option" where
  "readList s =
     (case readNat 0 s of
        (n, c # rest) \<Rightarrow> if c = CHR ''#'' then readFields n rest else None
      | (n, []) \<Rightarrow> None)"

definition readBool :: "string \<Rightarrow> (bool \<times> string) option" where
  "readBool s =
     (case s of
        [] \<Rightarrow> None
      | c # rest \<Rightarrow>
          if c = CHR ''T'' then Some (True, rest)
          else if c = CHR ''F'' then Some (False, rest) else None)"

definition readMinute :: "string \<Rightarrow> (nat \<times> string) option" where
  "readMinute s =
     (case readNat 0 s of
        (m, c # rest) \<Rightarrow> if c = CHR '';'' \<and> m < 1440 then Some (m, rest) else None
      | (m, []) \<Rightarrow> None)"

definition decodeConfig :: "string \<Rightarrow> StandupConfig option" where
  "decodeConfig s0 =
     Option.bind (readField s0) (\<lambda>(channelId, s1).
     Option.bind (readMinute s1) (\<lambda>(openMinute, s2).
     Option.bind (readMinute s2) (\<lambda>(closeMinute, s3).
     Option.bind (readField s3) (\<lambda>(reportFormat, s4).
     Option.bind (readList s4) (\<lambda>(members, s5).
     Option.bind (readList s5) (\<lambda>(sections, s6).
     Option.bind (readBool s6) (\<lambda>(enabled, s7).
     Option.bind (readField s7) (\<lambda>(timezone, s8).
     Option.bind (readBool s8) (\<lambda>(openReminder, s9).
     Option.bind (readBool s9) (\<lambda>(closeReminder, s10).
       if s10 = [] then
         Some \<lparr>ChannelId = channelId, WindowOpenTime = windowTimeOfMinute openMinute,
               WindowCloseTime = windowTimeOfMinute closeMinute, ReportFormat = reportFormat,
               Members = members, Sections = sections, Enabled = enabled, Timezone = timezone,
               WindowOpenReminderEnabled = openReminder,
               WindowCloseReminderEnabled = closeReminder\<rparr>
       else None))))))))))"

definition MarshalConfig_hourMinute :: "(string \<Rightarrow> int \<Rightarrow> int) \<Rightarrow> StandupConfig \<Rightarrow> error + string" where
  "MarshalConfig_hourMinute zone c = Inr (encodeConfig zone c)"

definition UnmarshalConfig_hourMinute :: "string \<Rightarrow> error + StandupConfig" where
  "UnmarshalConfig_hourMinute d =
     (case decodeConfig d of
        None \<Rightarrow> Inl (New ''invalid character'')
      | Some c \<Rightarrow> Inr c)"

text \<open>
  The concrete environment with that coder for configs; its zone table knows the offset
  of \<^verbatim>\<open>Asia/Kolkata\<close>. \<open>clockConfig\<close> has window times of whole minutes on the date a
  stored time is read on; \<open>secondsConfig\<close> opens thirty seconds after nine.
\<close>

definition demoZone :: "string \<Rightarrow> int \<Rightarrow> int" where
  "demoZone name instant = (if name = ''Asia/Kolkata'' then 19800 else 0)"

definition clockEnv :: env where
  "clockEnv =
     demoEnv\<lparr>MarshalConfig := MarshalConfig_hourMinute demoZone,
             UnmarshalConfig := UnmarshalConfig_hourMinute\<rparr>"

definition clockConfig :: StandupConfig where
  "clockConfig =
     demoConfig\<lparr>WindowOpenTime := windowTimeOfMinute 540, WindowCloseTime := windowTimeOfMinute 1020\<rparr>"

definition secondsConfig :: StandupConfig where
  "secondsConfig =
     clockConfig\<lparr>WindowOpenTime := OTime \<lparr>sec = - 31589970, nsec = 0, loc = None\<rparr>\<rparr>"

definition clockDupConfig :: StandupConfig where
  "clockDupConfig = clockConfig\<lparr>Members := [''id-alice'', ''id-bob'', ''id-alice'']\<rparr>"

section \<open>Properties\<close>

subsection \<open>Submissions for a channel that has no config\<close>

text \<open>
  C9. When \<^verbatim>\<open>GetStandupConfig\<close> finds no config for the channel of a submission,
  \<^verbatim>\<open>SaveUserStandup\<close> returns an error and the store (the whole state) is what it was
  before the call: nothing is written.
\<close>

theorem SaveUserStandup_without_config:
  "GetStandupConfig env w (ChannelID userStandup) = Inr None \<Longrightarrow>
   SaveUserStandup env w userStandup =
     (Some (New (''standup not configured for channel: '' @ ChannelID userStandup)), w)"
  by (simp add: SaveUserStandup_def)

theorem SaveUserStandup_without_config_witness:
  "GetStandupConfig demoEnv emptyWorld (ChannelID demoStandup) = Inr None \<and>
   SaveUserStandup demoEnv emptyWorld demoStandup =
     (Some (New ''standup not configured for channel: town-square''), emptyWorld)"
proof -
  have h: "GetStandupConfig demoEnv emptyWorld (ChannelID demoStandup) = Inr None"
    by (simp add: GetStandupConfig_def KVGet_def Let_def demoEnv_def emptyWorld_def demoStandup_def)
  show ?thesis
    using h SaveUserStandup_without_config [OF h] by (simp add: demoStandup_def)
qed

subsection \<open>Reports on demand\<close>

lemma executeCommandStandup_loop_calls:
  "executeCommandStandup_loop env w channelId vis userId ds =
     w\<lparr>reportCalls := reportCalls w @ map (\<lambda>date. ([channelId], date, vis, userId, False)) ds\<rparr>"
proof (induction ds arbitrary: w)
  case Nil
  show ?case by simp
next
  case (Cons date rest)
  show ?case
    by (cases "SendStandupReportErr env [channelId] date vis userId False")
       (simp_all add: SendStandupReport_def Cons.IH)
qed

text \<open>
  C8. On a validated context (visibility and dates are set), \<^verbatim>\<open>executeCommandStandup\<close>
  calls \<^verbatim>\<open>SendStandupReport\<close> once for every date, in order, whatever error any of the
  calls returns, and answers with the ephemeral text "Standup reports generated". The
  statement holds for every \<open>SendStandupReportErr\<close>, so also when every call fails.
\<close>

theorem executeCommandStandup_every_date:
  "visibility props = Some vis \<Longrightarrow> dates props = Some ds \<Longrightarrow>
   executeCommandStandup env w props channelId userId =
     Inr (\<lparr>ResponseType = COMMAND_RESPONSE_TYPE_EPHEMERAL,
           Text = ''Standup reports generated'', Type = []\<rparr>,
          w\<lparr>reportCalls := reportCalls w @ map (\<lambda>date. ([channelId], date, vis, userId, False)) ds\<rparr>)"
  by (simp add: executeCommandStandup_def executeCommandStandup_loop_calls)

theorem executeCommandStandup_every_date_witness:
  "visibility reportProps = Some ''private'' \<and> dates reportProps = Some [jan1, jan2] \<and>
   SendStandupReportErr demoEnv [''town-square''] jan1 ''private'' ''id-alice'' False
     = Some (New ''report not delivered'') \<and>
   executeCommandStandup demoEnv emptyWorld reportProps ''town-square'' ''id-alice'' =
     Inr (\<lparr>ResponseType = ''ephemeral'', Text = ''Standup reports generated'', Type = []\<rparr>,
          emptyWorld\<lparr>reportCalls :=
            [([''town-square''], jan1, ''private'', ''id-alice'', False),
             ([''town-square''], jan2, ''private'', ''id-alice'', False)]\<rparr>)"
proof -
  have v: "visibility reportProps = Some ''private''"
    by (simp add: reportProps_def emptyProps_def)
  have d: "dates reportProps = Some [jan1, jan2]"
    by (simp add: reportProps_def emptyProps_def)
  have e: "SendStandupReportErr demoEnv [''town-square''] jan1 ''private'' ''id-alice'' False
             = Some (New ''report not delivered'')"
    by (simp add: demoEnv_def)
  show ?thesis
    using v d e
      executeCommandStandup_every_date [OF v d, of demoEnv emptyWorld "''town-square''" "''id-alice''"]
    by (simp add: COMMAND_RESPONSE_TYPE_EPHEMERAL_def emptyWorld_def)
qed

subsection \<open>Saving and reading a config\<close>

lemma UniqString_from_set: "set (UniqString_from seen xs) = set xs - set seen"
  by (induction xs arbitrary: seen) auto

lemma UniqString_from_distinct: "distinct (UniqString_from seen xs)"
  by (induction xs arbitrary: seen) (auto simp: UniqString_from_set)

lemma UniqString_from_seen: "set ys \<subseteq> set seen \<Longrightarrow> UniqString_from seen ys = []"
  by (induction ys) auto

lemma UniqString_from_append_seen:
  "distinct xs \<Longrightarrow> set xs \<inter> set seen = {} \<Longrightarrow> set ys \<subseteq> set seen \<union> set xs \<Longrightarrow>
   UniqString_from seen (xs @ ys) = xs"
proof (induction xs arbitrary: seen)
  case Nil
  then show ?case by (simp add: UniqString_from_seen)
next
  case (Cons x xs)
  have "UniqString_from (x # seen) (xs @ ys) = xs"
    using Cons.prems by (intro Cons.IH) auto
  then show ?case using Cons.prems by simp
qed

lemma UniqString_set: "set (UniqString xs) = set xs"
  by (simp add: UniqString_def UniqString_from_set)

lemma UniqString_distinct: "distinct (UniqString xs)"
  by (simp add: UniqString_def UniqString_from_distinct)

lemma UniqString_append_known:
  "distinct xs \<Longrightarrow> set ys \<subseteq> set xs \<Longrightarrow> UniqString (xs @ ys) = xs"
  by (simp add: UniqString_def UniqString_from_append_seen)

lemma GetStandupConfig_stored:
  "KVGetErr env (GetKeyHash env (CacheKeyPrefixTeamStandupConfig env @ channelID)) = None \<Longrightarrow>
   kv w (GetKeyHash env (CacheKeyPrefixTeamStandupConfig env @ channelID)) = Some data \<Longrightarrow>
   data \<noteq> [] \<Longrightarrow> UnmarshalConfig env data = Inr c \<Longrightarrow>
   GetStandupConfig env w channelID = Inr (Some c)"
  by (simp add: GetStandupConfig_def KVGet_def Let_def)

lemma SaveStandupConfig_written:
  "MarshalConfig env (sc\<lparr>Members := UniqString (Members sc)\<rparr>) = Inr data \<Longrightarrow>
   KVSetErr env (GetKeyHash env (CacheKeyPrefixTeamStandupConfig env @ ChannelId sc)) data = None \<Longrightarrow>
   SaveStandupConfig env w sc =
     (Inr (sc\<lparr>Members := UniqString (Members sc)\<rparr>),
      w\<lparr>kv := (kv w)(GetKeyHash env (CacheKeyPrefixTeamStandupConfig env @ ChannelId sc) \<mapsto> data)\<rparr>)"
  by (simp add: SaveStandupConfig_def KVSet_def Let_def)

lemma digit_char:
  "k < 10 \<Longrightarrow> isDigit (char_of (48 + k)) \<and> (of_char (char_of (48 + k)) :: nat) - 48 = k"
  by (simp add: isDigit_def of_char_of)

lemma Itoa_not_Nil: "Itoa n \<noteq> []"
  by (subst Itoa.simps) simp

lemma Itoa_digits: "\<forall>c\<in>set (Itoa n). isDigit c"
proof (induction n rule: Itoa.induct)
  case (1 n)
  show ?case
  proof (cases "n < 10")
    case True
    then show ?thesis by (subst Itoa.simps) (simp add: digit_char)
  next
    case False
    moreover have "isDigit (char_of (48 + n mod 10))"
      by (simp add: digit_char)
    ultimately show ?thesis using "1.IH" by (subst Itoa.simps) simp
  qed
qed

lemma Itoa_value:
  "foldl (\<lambda>a c. 10 * a + (of_char c - 48)) acc (Itoa n) = acc * 10 ^ length (Itoa n) + n"
proof (induction n arbitrary: acc rule: Itoa.induct)
  case (1 n)
  show ?case
  proof (cases "n < 10")
    case True
    then show ?thesis by (subst (1 2) Itoa.simps) (simp add: digit_char)
  next
    case False
    have d: "(of_char (char_of (48 + n mod 10)) :: nat) - 48 = n mod 10"
      by (simp add: digit_char)
    have "foldl (\<lambda>a c. 10 * a + (of_char c - 48)) acc (Itoa n)
            = 10 * (acc * 10 ^ length (Itoa (n div 10)) + n div 10) + n mod 10"
      using False "1.IH" [OF False, of acc] by (subst Itoa.simps) (simp add: d)
    also have "\<dots> = acc * 10 ^ length (Itoa n) + n"
      using False by (subst (2) Itoa.simps) (simp add: algebra_simps)
    finally show ?thesis .
  qed
qed

lemma readNat_digits:
  "\<forall>c\<in>set ds. isDigit c \<Longrightarrow> \<not> isDigit d \<Longrightarrow>
   readNat acc (ds @ d # rest) = (foldl (\<lambda>a c. 10 * a + (of_char c - 48)) acc ds, d # rest)"
  by (induction ds arbitrary: acc) simp_all

lemma readNat_Itoa: "\<not> isDigit d \<Longrightarrow> readNat 0 (Itoa n @ d # rest) = (n, d # rest)"
  using readNat_digits [where ds = "Itoa n" and d = d and acc = 0 and rest = rest] Itoa_digits [of n]
  by (simp add: Itoa_value)

lemma readField_writeField: "readField (writeField s @ rest) = Some (s, rest)"
proof -
  have "\<not> isDigit (CHR '':'')" by (simp add: isDigit_def)
  then show ?thesis
    by (simp add: readField_def writeField_def readNat_Itoa)
qed

lemma readFields_writeField:
  "readFields (length xs) (concat (map writeField xs) @ rest) = Some (xs, rest)"
  by (induction xs) (simp_all add: readField_writeField)

lemma readList_writeList: "readList (writeList xs @ rest) = Some (xs, rest)"
proof -
  have "\<not> isDigit (CHR ''#'')" by (simp add: isDigit_def)
  then show ?thesis
    by (simp add: readList_def writeList_def readNat_Itoa readFields_writeField)
qed

lemma readBool_writeBool: "readBool (writeBool b @ rest) = Some (b, rest)"
  by (simp add: readBool_def writeBool_def)

lemma readMinute_writeMinute: "m < 1440 \<Longrightarrow> readMinute (writeMinute m @ rest) = Some (m, rest)"
proof -
  have "\<not> isDigit (CHR '';'')" by (simp add: isDigit_def)
  then show "m < 1440 \<Longrightarrow> readMinute (writeMinute m @ rest) = Some (m, rest)"
    by (simp add: readMinute_def writeMinute_def readNat_Itoa)
qed

lemma minuteOfDay_less: "minuteOfDay zone t < 1440"
proof -
  have "nat ((x mod 86400) div 60) < 1440" for x :: int
    by arith
  then show ?thesis by (simp add: minuteOfDay_def Let_def)
qed

lemma decodeConfig_encodeConfig:
  "decodeConfig (encodeConfig zone c) =
     Some (c\<lparr>WindowOpenTime := windowTimeOfMinute (minuteOfDay zone (WindowOpenTime c)),
             WindowCloseTime := windowTimeOfMinute (minuteOfDay zone (WindowCloseTime c))\<rparr>)"
  by (simp add: decodeConfig_def encodeConfig_def readField_writeField readList_writeList
        readBool_writeBool readMinute_writeMinute minuteOfDay_less
        readBool_writeBool [of _ "[]", simplified])

lemma encodeConfig_not_Nil: "encodeConfig zone c \<noteq> []"
  by (simp add: encodeConfig_def writeField_def Itoa_not_Nil)


lemma hourMinute_save_then_get:
  assumes "MarshalConfig env = MarshalConfig_hourMinute zone"
    and "UnmarshalConfig env = UnmarshalConfig_hourMinute"
    and "KVSetErr env (GetKeyHash env (CacheKeyPrefixTeamStandupConfig env @ ChannelId sc))
           (encodeConfig zone (sc\<lparr>Members := UniqString (Members sc)\<rparr>)) = None"
    and "KVGetErr env (GetKeyHash env (CacheKeyPrefixTeamStandupConfig env @ ChannelId sc)) = None"
  shows "GetStandupConfig env (snd (SaveStandupConfig env w sc)) (ChannelId sc) =
           Inr (Some (sc\<lparr>Members := UniqString (Members sc),
                          WindowOpenTime := windowTimeOfMinute (minuteOfDay zone (WindowOpenTime sc)),
                          WindowCloseTime := windowTimeOfMinute (minuteOfDay zone (WindowCloseTime sc))\<rparr>))"
proof -
  let ?sc = "sc\<lparr>Members := UniqString (Members sc)\<rparr>"
  let ?key = "GetKeyHash env (CacheKeyPrefixTeamStandupConfig env @ ChannelId sc)"
  have m: "MarshalConfig env ?sc = Inr (encodeConfig zone ?sc)"
    by (simp add: assms(1) MarshalConfig_hourMinute_def)
  have saved: "SaveStandupConfig env w sc = (Inr ?sc, w\<lparr>kv := (kv w)(?key \<mapsto> encodeConfig zone ?sc)\<rparr>)"
    using m assms(3) by (rule SaveStandupConfig_written)
  have u: "UnmarshalConfig env (encodeConfig zone ?sc) =
      Inr (?sc\<lparr>WindowOpenTime := windowTimeOfMinute (minuteOfDay zone (WindowOpenTime sc)),
               WindowCloseTime := windowTimeOfMinute (minuteOfDay zone (WindowCloseTime sc))\<rparr>)"
    by (simp add: assms(2) UnmarshalConfig_hourMinute_def decodeConfig_encodeConfig)
  have "GetStandupConfig env (w\<lparr>kv := (kv w)(?key \<mapsto> encodeConfig zone ?sc)\<rparr>) (ChannelId sc) =
      Inr (Some (?sc\<lparr>WindowOpenTime := windowTimeOfMinute (minuteOfDay zone (WindowOpenTime sc)),
               WindowCloseTime := windowTimeOfMinute (minuteOfDay zone (WindowCloseTime sc))\<rparr>))"
    using assms(4) _ encodeConfig_not_Nil u by (rule GetStandupConfig_stored) simp
  with saved show ?thesis by simp
qed

text \<open>
  C4, as the code has it. When the store accepts the write and the read of the config's
  key, \<^verbatim>\<open>SaveStandupConfig\<close> returns the given config with \<^verbatim>\<open>Members\<close> replaced by
  \<open>UniqString (Members sc)\<close> (no duplicates, the same elements) and every other field as
  given, and stores the encoding of that config; \<^verbatim>\<open>GetStandupConfig\<close> for the same
  channel id then returns what decoding makes of those bytes, whatever the coder. With
  the coder that keeps the hour and the minute of a window time, what is read back is
  the saved config with its members deduplicated and each window time reduced to its
  hour and minute; every other field is the saved one.
\<close>

theorem SaveStandupConfig_then_GetStandupConfig:
  "(MarshalConfig env (sc\<lparr>Members := UniqString (Members sc)\<rparr>) = Inr data \<and>
    KVSetErr env (GetKeyHash env (CacheKeyPrefixTeamStandupConfig env @ ChannelId sc)) data = None \<and>
    KVGetErr env (GetKeyHash env (CacheKeyPrefixTeamStandupConfig env @ ChannelId sc)) = None \<longrightarrow>
      fst (SaveStandupConfig env w sc) = Inr (sc\<lparr>Members := UniqString (Members sc)\<rparr>) \<and>
      distinct (UniqString (Members sc)) \<and> set (UniqString (Members sc)) = set (Members sc) \<and>
      kv (snd (SaveStandupConfig env w sc))
         (GetKeyHash env (CacheKeyPrefixTeamStandupConfig env @ ChannelId sc)) = Some data \<and>
      GetStandupConfig env (snd (SaveStandupConfig env w sc)) (ChannelId sc) =
        (if data = [] then Inr None
         else (case UnmarshalConfig env data of
                 Inl err \<Rightarrow> Inl err
               | Inr read \<Rightarrow> Inr (Some read)))) \<and>
   (MarshalConfig env = MarshalConfig_hourMinute zone \<and>
    UnmarshalConfig env = UnmarshalConfig_hourMinute \<and>
    KVSetErr env (GetKeyHash env (CacheKeyPrefixTeamStandupConfig env @ ChannelId sc))
      (encodeConfig zone (sc\<lparr>Members := UniqString (Members sc)\<rparr>)) = None \<and>
    KVGetErr env (GetKeyHash env (CacheKeyPrefixTeamStandupConfig env @ ChannelId sc)) = None \<longrightarrow>
      GetStandupConfig env (snd (SaveStandupConfig env w sc)) (ChannelId sc) =
        Inr (Some (sc\<lparr>Members := UniqString (Members sc),
                       WindowOpenTime := windowTimeOfMinute (minuteOfDay zone (WindowOpenTime sc)),
                       WindowCloseTime := windowTimeOfMinute (minuteOfDay zone (WindowCloseTime sc))\<rparr>)))"
proof (intro conjI impI)
  let ?key = "GetKeyHash env (CacheKeyPrefixTeamStandupConfig env @ ChannelId sc)"
  assume a: "MarshalConfig env (sc\<lparr>Members := UniqString (Members sc)\<rparr>) = Inr data \<and>
    KVSetErr env ?key data = None \<and> KVGetErr env ?key = None"
  then have saved: "SaveStandupConfig env w sc =
      (Inr (sc\<lparr>Members := UniqString (Members sc)\<rparr>), w\<lparr>kv := (kv w)(?key \<mapsto> data)\<rparr>)"
    using SaveStandupConfig_written [of env sc data w] by simp
  show "fst (SaveStandupConfig env w sc) = Inr (sc\<lparr>Members := UniqString (Members sc)\<rparr>)"
    by (simp add: saved)
  show "distinct (UniqString (Members sc))"
    by (rule UniqString_distinct)
  show "set (UniqString (Members sc)) = set (Members sc)"
    by (rule UniqString_set)
  show "kv (snd (SaveStandupConfig env w sc)) ?key = Some data"
    by (simp add: saved)
  show "GetStandupConfig env (snd (SaveStandupConfig env w sc)) (ChannelId sc) =
        (if data = [] then Inr None
         else (case UnmarshalConfig env data of
                 Inl err \<Rightarrow> Inl err
               | Inr read \<Rightarrow> Inr (Some read)))"
    using a by (simp add: saved GetStandupConfig_def KVGet_def Let_def)
next
  assume "MarshalConfig env = MarshalConfig_hourMinute zone \<and>
    UnmarshalConfig env = UnmarshalConfig_hourMinute \<and>
    KVSetErr env (GetKeyHash env (CacheKeyPrefixTeamStandupConfig env @ ChannelId sc))
      (encodeConfig zone (sc\<lparr>Members := UniqString (Members sc)\<rparr>)) = None \<and>
    KVGetErr env (GetKeyHash env (CacheKeyPrefixTeamStandupConfig env @ ChannelId sc)) = None"
  then show "GetStandupConfig env (snd (SaveStandupConfig env w sc)) (ChannelId sc) =
        Inr (Some (sc\<lparr>Members := UniqString (Members sc),
                       WindowOpenTime := windowTimeOfMinute (minuteOfDay zone (WindowOpenTime sc)),
                       WindowCloseTime := windowTimeOfMinute (minuteOfDay zone (WindowCloseTime sc))\<rparr>))"
    using hourMinute_save_then_get [of env zone sc w] by simp
qed

lemma clockEnv_fields:
  "MarshalConfig clockEnv = MarshalConfig_hourMinute demoZone"
  "UnmarshalConfig clockEnv = UnmarshalConfig_hourMinute"
  "KVSetErr clockEnv k d = None"
  "KVGetErr clockEnv k = None"
  "GetKeyHash clockEnv (CacheKeyPrefixTeamStandupConfig clockEnv @ c) = ''#standup_config_'' @ c"
  by (simp_all add: clockEnv_def demoEnv_def)

lemma clock_minutes:
  "minuteOfDay demoZone (windowTimeOfMinute 540) = 540"
  "minuteOfDay demoZone (windowTimeOfMinute 1020) = 1020"
  "minuteOfDay demoZone (OTime \<lparr>sec = - 31589970, nsec = 0, loc = None\<rparr>) = 540"
  by (simp_all add: minuteOfDay_def windowTimeOfMinute_def)

theorem SaveStandupConfig_drops_seconds:
  "KVSetErr clockEnv (GetKeyHash clockEnv (CacheKeyPrefixTeamStandupConfig clockEnv @ ChannelId secondsConfig))
     (encodeConfig demoZone secondsConfig) = None \<and>
   KVGetErr clockEnv (GetKeyHash clockEnv (CacheKeyPrefixTeamStandupConfig clockEnv @ ChannelId secondsConfig))
     = None \<and>
   fst (SaveStandupConfig clockEnv emptyWorld secondsConfig) = Inr secondsConfig \<and>
   GetStandupConfig clockEnv (snd (SaveStandupConfig clockEnv emptyWorld secondsConfig))
     (ChannelId secondsConfig) = Inr (Some clockConfig) \<and>
   WindowOpenTime secondsConfig = OTime \<lparr>sec = - 31589970, nsec = 0, loc = None\<rparr> \<and>
   WindowOpenTime clockConfig = OTime \<lparr>sec = - 31590000, nsec = 0, loc = None\<rparr> \<and>
   clockConfig \<noteq> secondsConfig"
proof -
  have u: "secondsConfig\<lparr>Members := UniqString (Members secondsConfig)\<rparr> = secondsConfig"
    by (simp add: secondsConfig_def clockConfig_def demoConfig_def UniqString_def)
  have m: "MarshalConfig clockEnv (secondsConfig\<lparr>Members := UniqString (Members secondsConfig)\<rparr>)
             = Inr (encodeConfig demoZone secondsConfig)"
    by (simp add: u clockEnv_fields MarshalConfig_hourMinute_def)
  have saved: "fst (SaveStandupConfig clockEnv emptyWorld secondsConfig) = Inr secondsConfig"
    using SaveStandupConfig_written [OF m clockEnv_fields(3), of emptyWorld] by (simp add: u)
  have "GetStandupConfig clockEnv (snd (SaveStandupConfig clockEnv emptyWorld secondsConfig))
          (ChannelId secondsConfig) =
        Inr (Some (secondsConfig\<lparr>Members := UniqString (Members secondsConfig),
           WindowOpenTime := windowTimeOfMinute (minuteOfDay demoZone (WindowOpenTime secondsConfig)),
           WindowCloseTime := windowTimeOfMinute (minuteOfDay demoZone (WindowCloseTime secondsConfig))\<rparr>))"
    by (rule hourMinute_save_then_get) (simp_all add: clockEnv_fields)
  moreover have "secondsConfig\<lparr>Members := UniqString (Members secondsConfig),
           WindowOpenTime := windowTimeOfMinute (minuteOfDay demoZone (WindowOpenTime secondsConfig)),
           WindowCloseTime := windowTimeOfMinute (minuteOfDay demoZone (WindowCloseTime secondsConfig))\<rparr>
         = clockConfig"
    by (simp add: secondsConfig_def clockConfig_def demoConfig_def UniqString_def clock_minutes)
  ultimately have read: "GetStandupConfig clockEnv (snd (SaveStandupConfig clockEnv emptyWorld secondsConfig))
          (ChannelId secondsConfig) = Inr (Some clockConfig)"
    by simp
  have t: "WindowOpenTime secondsConfig = OTime \<lparr>sec = - 31589970, nsec = 0, loc = None\<rparr>"
    "WindowOpenTime clockConfig = OTime \<lparr>sec = - 31590000, nsec = 0, loc = None\<rparr>"
    by (simp_all add: secondsConfig_def clockConfig_def windowTimeOfMinute_def)
  have "clockConfig \<noteq> secondsConfig"
  proof
    assume "clockConfig = secondsConfig"
    then have "WindowOpenTime clockConfig = WindowOpenTime secondsConfig"
      by simp
    then show False
      by (simp add: t)
  qed
  with saved read t show ?thesis
    by (simp add: clockEnv_fields)
qed


theorem SaveStandupConfig_then_GetStandupConfig_witness:
  "MarshalConfig clockEnv (clockDupConfig\<lparr>Members := UniqString (Members clockDupConfig)\<rparr>)
     = Inr (encodeConfig demoZone clockConfig) \<and>
   KVSetErr clockEnv (GetKeyHash clockEnv (CacheKeyPrefixTeamStandupConfig clockEnv @ ChannelId clockDupConfig))
     (encodeConfig demoZone clockConfig) = None \<and>
   KVGetErr clockEnv (GetKeyHash clockEnv (CacheKeyPrefixTeamStandupConfig clockEnv @ ChannelId clockDupConfig))
     = None \<and>
   MarshalConfig clockEnv = MarshalConfig_hourMinute demoZone \<and>
   UnmarshalConfig clockEnv = UnmarshalConfig_hourMinute \<and>
   Members clockDupConfig = [''id-alice'', ''id-bob'', ''id-alice''] \<and>
   fst (SaveStandupConfig clockEnv emptyWorld clockDupConfig) = Inr clockConfig \<and>
   kv (snd (SaveStandupConfig clockEnv emptyWorld clockDupConfig)) ''#standup_config_town-square''
     = Some (encodeConfig demoZone clockConfig) \<and>
   GetStandupConfig clockEnv (snd (SaveStandupConfig clockEnv emptyWorld clockDupConfig)) ''town-square''
     = Inr (Some clockConfig) \<and>
   Members clockConfig = [''id-alice'', ''id-bob'']"
proof -
  have u: "clockDupConfig\<lparr>Members := UniqString (Members clockDupConfig)\<rparr> = clockConfig"
    by (simp add: clockDupConfig_def clockConfig_def demoConfig_def UniqString_def)
  have c: "ChannelId clockDupConfig = ''town-square''"
    by (simp add: clockDupConfig_def clockConfig_def demoConfig_def)
  have key: "GetKeyHash clockEnv (CacheKeyPrefixTeamStandupConfig clockEnv @ ChannelId clockDupConfig)
               = ''#standup_config_town-square''"
    by (simp add: clockEnv_fields c)
  have h1: "MarshalConfig clockEnv (clockDupConfig\<lparr>Members := UniqString (Members clockDupConfig)\<rparr>)
     = Inr (encodeConfig demoZone clockConfig)"
    by (simp add: u clockEnv_fields MarshalConfig_hourMinute_def)
  have h2: "KVSetErr clockEnv
      (GetKeyHash clockEnv (CacheKeyPrefixTeamStandupConfig clockEnv @ ChannelId clockDupConfig))
      (encodeConfig demoZone clockConfig) = None"
    by (rule clockEnv_fields)
  have h3: "KVGetErr clockEnv
      (GetKeyHash clockEnv (CacheKeyPrefixTeamStandupConfig clockEnv @ ChannelId clockDupConfig)) = None"
    by (rule clockEnv_fields)
  have m: "Members clockDupConfig = [''id-alice'', ''id-bob'', ''id-alice'']"
    "Members clockConfig = [''id-alice'', ''id-bob'']"
    by (simp_all add: clockDupConfig_def clockConfig_def demoConfig_def)
  have stored: "clockDupConfig\<lparr>Members := UniqString (Members clockDupConfig),
       WindowOpenTime := windowTimeOfMinute (minuteOfDay demoZone (WindowOpenTime clockDupConfig)),
       WindowCloseTime := windowTimeOfMinute (minuteOfDay demoZone (WindowCloseTime clockDupConfig))\<rparr>
     = clockConfig"
    by (simp add: clockDupConfig_def clockConfig_def demoConfig_def UniqString_def clock_minutes)
  note t = SaveStandupConfig_then_GetStandupConfig
    [where env = clockEnv and sc = clockDupConfig and w = emptyWorld and zone = demoZone
       and data = "encodeConfig demoZone clockConfig"]
  have r1: "fst (SaveStandupConfig clockEnv emptyWorld clockDupConfig) = Inr clockConfig"
    "kv (snd (SaveStandupConfig clockEnv emptyWorld clockDupConfig)) ''#standup_config_town-square''
       = Some (encodeConfig demoZone clockConfig)"
    using t [THEN conjunct1] h1 h2 h3 unfolding u key by simp_all
  have r2: "GetStandupConfig clockEnv (snd (SaveStandupConfig clockEnv emptyWorld clockDupConfig))
      ''town-square'' = Inr (Some clockConfig)"
    using t [THEN conjunct2, unfolded stored, unfolded u c] h2 [unfolded c] h3 [unfolded c]
      clockEnv_fields(1,2)
    by simp
  show ?thesis
    using h1 h2 h3 clockEnv_fields(1,2) m r1 r2 by blast
qed

subsection \<open>The key of a submission\<close>

text \<open>
  C3. For a channel with a stored config, \<^verbatim>\<open>SaveUserStandup\<close> writes the encoded
  submission under the hash of \<open>dateKey @ ''_'' @ channelId @ userId\<close>, where \<open>dateKey\<close>
  is the date string of the current time in the time zone of that config
  (\<open>Now env (Timezone cfg)\<close>, not a server-local clock), and changes nothing else.
  \<^verbatim>\<open>GetUserStandup\<close> for the same user, channel and any date with that date string
  reads the same key: it returns the submission that was saved (when the store accepts
  the read and the encoding is not empty and decodes to the submission).
\<close>

theorem SaveUserStandup_key:
  assumes "GetStandupConfig env w (ChannelID us) = Inr (Some cfg)"
    and "MarshalUserStandup env us = Inr bytes"
    and "KVSetErr env (GetKeyHash env (GetDateString env (Now env (Timezone cfg)) @ ''_''
           @ ChannelID us @ UserID us)) bytes = None"
    and "GetDateString env date = GetDateString env (Now env (Timezone cfg))"
    and "KVGetErr env (GetKeyHash env (GetDateString env (Now env (Timezone cfg)) @ ''_''
           @ ChannelID us @ UserID us)) = None"
    and "bytes \<noteq> []"
    and "UnmarshalUserStandup env bytes = Inr us"
  shows "SaveUserStandup env w us =
           (None, w\<lparr>kv := (kv w)(GetKeyHash env (GetDateString env (Now env (Timezone cfg)) @ ''_''
                                     @ ChannelID us @ UserID us) \<mapsto> bytes)\<rparr>) \<and>
         GetUserStandup env (snd (SaveUserStandup env w us)) (UserID us) (ChannelID us) date
           = Inr (Some us)"
proof -
  let ?key = "GetKeyHash env (GetDateString env (Now env (Timezone cfg)) @ ''_''
                @ ChannelID us @ UserID us)"
  have saved: "SaveUserStandup env w us = (None, w\<lparr>kv := (kv w)(?key \<mapsto> bytes)\<rparr>)"
    using assms(1,2,3) by (simp add: SaveUserStandup_def KVSet_def Let_def)
  have "GetUserStandup env (w\<lparr>kv := (kv w)(?key \<mapsto> bytes)\<rparr>) (UserID us) (ChannelID us) date
          = Inr (Some us)"
    using assms(4,5,6,7) by (simp add: GetUserStandup_def KVGet_def Let_def)
  with saved show ?thesis by simp
qed

theorem SaveUserStandup_key_witness:
  "GetStandupConfig demoEnv configuredWorld (ChannelID demoStandup) = Inr (Some demoConfig) \<and>
   MarshalUserStandup demoEnv demoStandup = Inr ''{userId:id-alice}'' \<and>
   KVSetErr demoEnv (GetKeyHash demoEnv (GetDateString demoEnv (Now demoEnv (Timezone demoConfig)) @ ''_''
      @ ChannelID demoStandup @ UserID demoStandup)) ''{userId:id-alice}'' = None \<and>
   GetDateString demoEnv jan1 = GetDateString demoEnv (Now demoEnv (Timezone demoConfig)) \<and>
   KVGetErr demoEnv (GetKeyHash demoEnv (GetDateString demoEnv (Now demoEnv (Timezone demoConfig)) @ ''_''
      @ ChannelID demoStandup @ UserID demoStandup)) = None \<and>
   ''{userId:id-alice}'' \<noteq> [] \<and>
   UnmarshalUserStandup demoEnv ''{userId:id-alice}'' = Inr demoStandup \<and>
   SaveUserStandup demoEnv configuredWorld demoStandup =
     (None, configuredWorld\<lparr>kv := (kv configuredWorld)
        (''#20240101_town-squareid-alice'' \<mapsto> ''{userId:id-alice}'')\<rparr>) \<and>
   GetUserStandup demoEnv (snd (SaveUserStandup demoEnv configuredWorld demoStandup))
     ''id-alice'' ''town-square'' jan1 = Inr (Some demoStandup)"
proof -
  have k: "GetKeyHash demoEnv (GetDateString demoEnv (Now demoEnv (Timezone demoConfig))
             @ ''_town-squareid-alice'') = ''#20240101_town-squareid-alice''"
    by (simp add: demoEnv_def)
  have i: "UserID demoStandup = ''id-alice''" "ChannelID demoStandup = ''town-square''"
    by (simp_all add: demoStandup_def)
  have h1: "GetStandupConfig demoEnv configuredWorld (ChannelID demoStandup) = Inr (Some demoConfig)"
    by (simp add: GetStandupConfig_def KVGet_def Let_def demoEnv_def configuredWorld_def
          emptyWorld_def demoStandup_def)
  have h2: "MarshalUserStandup demoEnv demoStandup = Inr ''{userId:id-alice}''"
    by (simp add: demoEnv_def demoStandup_def)
  have h3: "KVSetErr demoEnv (GetKeyHash demoEnv (GetDateString demoEnv (Now demoEnv (Timezone demoConfig)) @ ''_''
      @ ChannelID demoStandup @ UserID demoStandup)) ''{userId:id-alice}'' = None"
    by (simp add: demoEnv_def)
  have h4: "GetDateString demoEnv jan1 = GetDateString demoEnv (Now demoEnv (Timezone demoConfig))"
    by (simp add: demoEnv_def jan1_def)
  have h5: "KVGetErr demoEnv (GetKeyHash demoEnv (GetDateString demoEnv (Now demoEnv (Timezone demoConfig)) @ ''_''
      @ ChannelID demoStandup @ UserID demoStandup)) = None"
    by (simp add: demoEnv_def)
  have h6: "''{userId:id-alice}'' \<noteq> []" by simp
  have h7: "UnmarshalUserStandup demoEnv ''{userId:id-alice}'' = Inr demoStandup"
    by (simp add: demoEnv_def)
  note saved = SaveUserStandup_key [OF h1 h2 h3 h4 h5 h6 h7]
  show ?thesis
    using saved [THEN conjunct1] saved [THEN conjunct2] h1 h2 h3 h4 h5 h6 h7
    unfolding i by (simp add: k)
qed

subsection \<open>Adding members that are members already\<close>

lemma GetStandupConfig_world_kv:
  "kv w' (GetKeyHash env (CacheKeyPrefixTeamStandupConfig env @ channelID)) =
     kv w (GetKeyHash env (CacheKeyPrefixTeamStandupConfig env @ channelID))
   \<Longrightarrow> GetStandupConfig env w' channelID = GetStandupConfig env w channelID"
  by (simp add: GetStandupConfig_def KVGet_def Let_def split: option.split)

lemma SaveStandupConfig_cases:
  "snd (SaveStandupConfig env w sc) = w \<or>
   (\<exists>data. MarshalConfig env (sc\<lparr>Members := UniqString (Members sc)\<rparr>) = Inr data \<and>
      snd (SaveStandupConfig env w sc) =
        w\<lparr>kv := (kv w)(GetKeyHash env (CacheKeyPrefixTeamStandupConfig env @ ChannelId sc) \<mapsto> data)\<rparr>)"
  by (auto simp: SaveStandupConfig_def KVSet_def Let_def split: sum.splits option.splits)

text \<open>
  C10. In a channel with a stored config \<open>cfg\<close>, \<^verbatim>\<open>addStandupMembers\<close> with user ids
  that are all in \<open>Members cfg\<close> leaves the stored set of members as it was: the config
  read back afterwards has the same set of members, and the same list when the stored
  list had no duplicates. (The encoding of the config that is written is taken to be
  non-empty and to decode to that config.)
\<close>

theorem addStandupMembers_present:
  assumes "GetStandupConfig env w channelID = Inr (Some cfg)"
    and "set usernames \<subseteq> set (Members cfg)"
    and "MarshalConfig env (cfg\<lparr>Members := UniqString (Members cfg @ usernames)\<rparr>) = Inr data"
    and "data \<noteq> []"
    and "UnmarshalConfig env data = Inr (cfg\<lparr>Members := UniqString (Members cfg @ usernames)\<rparr>)"
  shows "\<exists>cfg'. GetStandupConfig env (snd (addStandupMembers env w usernames channelID)) channelID
                   = Inr (Some cfg') \<and>
                 set (Members cfg') = set (Members cfg) \<and>
                 (distinct (Members cfg) \<longrightarrow> Members cfg' = Members cfg)"
proof -
  let ?sc = "cfg\<lparr>Members := Members cfg @ usernames\<rparr>"
  let ?saved = "cfg\<lparr>Members := UniqString (Members cfg @ usernames)\<rparr>"
  let ?key = "GetKeyHash env (CacheKeyPrefixTeamStandupConfig env @ channelID)"
  let ?key' = "GetKeyHash env (CacheKeyPrefixTeamStandupConfig env @ ChannelId cfg)"
  let ?w' = "snd (addStandupMembers env w usernames channelID)"
  have w': "?w' = snd (SaveStandupConfig env w ?sc)"
    using assms(1) by (simp add: addStandupMembers_def split: prod.splits sum.splits)
  have get: "KVGetErr env ?key = None"
    using assms(1) by (simp add: GetStandupConfig_def KVGet_def Let_def split: option.splits)
  have members: "set (Members ?saved) = set (Members cfg)"
    using assms(2) by (auto simp: UniqString_set)
  have same: "distinct (Members cfg) \<longrightarrow> Members ?saved = Members cfg"
    using assms(2) by (simp add: UniqString_append_known)
  from SaveStandupConfig_cases [of env w ?sc]
  consider (unchanged) "?w' = w"
    | (written) "?w' = w\<lparr>kv := (kv w)(?key' \<mapsto> data)\<rparr>"
    using w' assms(3) by auto
  then show ?thesis
  proof cases
    case unchanged
    then show ?thesis using assms(1) by simp
  next
    case written
    show ?thesis
    proof (cases "?key' = ?key")
      case True
      have "GetStandupConfig env ?w' channelID = Inr (Some ?saved)"
        using get _ assms(4,5) by (rule GetStandupConfig_stored) (simp add: written True)
      then show ?thesis using members same by simp
    next
      case False
      have "GetStandupConfig env ?w' channelID = GetStandupConfig env w channelID"
        by (rule GetStandupConfig_world_kv) (simp add: written False [symmetric] del: fun_upd_apply add: fun_upd_other)
      then show ?thesis using assms(1) by simp
    qed
  qed
qed

theorem addStandupMembers_present_witness:
  "GetStandupConfig demoEnv configuredWorld ''town-square'' = Inr (Some demoConfig) \<and>
   set [''id-bob'', ''id-alice''] \<subseteq> set (Members demoConfig) \<and>
   MarshalConfig demoEnv (demoConfig\<lparr>Members := UniqString (Members demoConfig @ [''id-bob'', ''id-alice''])\<rparr>)
     = Inr ''{channelId:town-square}'' \<and>
   ''{channelId:town-square}'' \<noteq> [] \<and>
   UnmarshalConfig demoEnv ''{channelId:town-square}''
     = Inr (demoConfig\<lparr>Members := UniqString (Members demoConfig @ [''id-bob'', ''id-alice''])\<rparr>) \<and>
   distinct (Members demoConfig) \<and>
   (\<exists>cfg'. GetStandupConfig demoEnv
              (snd (addStandupMembers demoEnv configuredWorld [''id-bob'', ''id-alice''] ''town-square''))
              ''town-square'' = Inr (Some cfg') \<and>
            Members cfg' = [''id-alice'', ''id-bob''])"
proof -
  have u: "demoConfig\<lparr>Members := UniqString (Members demoConfig @ [''id-bob'', ''id-alice''])\<rparr> = demoConfig"
    by (simp add: demoConfig_def UniqString_def)
  have m: "Members demoConfig = [''id-alice'', ''id-bob'']"
    by (simp add: demoConfig_def)
  have h1: "GetStandupConfig demoEnv configuredWorld ''town-square'' = Inr (Some demoConfig)"
    by (simp add: GetStandupConfig_def KVGet_def Let_def demoEnv_def configuredWorld_def emptyWorld_def)
  have h2: "set [''id-bob'', ''id-alice''] \<subseteq> set (Members demoConfig)"
    by (simp add: m)
  have h3: "MarshalConfig demoEnv (demoConfig\<lparr>Members := UniqString (Members demoConfig @ [''id-bob'', ''id-alice''])\<rparr>)
              = Inr ''{channelId:town-square}''"
    unfolding u by (simp add: demoEnv_def demoConfig_def)
  have h4: "''{channelId:town-square}'' \<noteq> []" by simp
  have h5: "UnmarshalConfig demoEnv ''{channelId:town-square}''
              = Inr (demoConfig\<lparr>Members := UniqString (Members demoConfig @ [''id-bob'', ''id-alice''])\<rparr>)"
    unfolding u by (simp add: demoEnv_def)
  have d: "distinct (Members demoConfig)"
    by (simp add: m)
  from addStandupMembers_present [OF h1 h2 h3 h4 h5] d
  have "\<exists>cfg'. GetStandupConfig demoEnv
              (snd (addStandupMembers demoEnv configuredWorld [''id-bob'', ''id-alice''] ''town-square''))
              ''town-square'' = Inr (Some cfg') \<and>
            Members cfg' = [''id-alice'', ''id-bob'']"
    by (auto simp: m)
  with h1 h2 h3 h4 h5 d show ?thesis by blast
qed

subsection \<open>Validity of a config\<close>

lemma ContainsDuplicates_from_iff:
  "snd (ContainsDuplicates_from seen xs) \<longleftrightarrow> \<not> (distinct xs \<and> set xs \<inter> set seen = {})"
  by (induction xs arbitrary: seen) auto

lemma ContainsDuplicates_iff: "snd (ContainsDuplicates xs) \<longleftrightarrow> \<not> distinct xs"
  by (simp add: ContainsDuplicates_def ContainsDuplicates_from_iff)

text \<open>
  C2, as the code has it. \<^verbatim>\<open>StandupConfig.IsValid\<close> returns nil exactly for the configs
  with a channel id, window times that are not the zero time, an open time that is not
  after the close time (equal times pass), a non-empty time zone that resolves, a known
  report format, at least one section, and no duplicate among the sections nor among the
  members. Every other config gets an error.
\<close>

theorem StandupConfig_IsValid_accepts:
  "StandupConfig_IsValid env sc = None \<longleftrightarrow>
     ChannelId sc \<noteq> [] \<and> WindowOpenTime sc \<noteq> emptyTime \<and> WindowCloseTime sc \<noteq> emptyTime \<and>
     \<not> After (Time (WindowOpenTime sc)) (Time (WindowCloseTime sc)) \<and>
     Timezone sc \<noteq> [] \<and> ReportFormat sc \<in> set (ReportFormats env) \<and>
     LoadLocationErr env (Timezone sc) = None \<and>
     Sections sc \<noteq> [] \<and> distinct (Sections sc) \<and> distinct (Members sc)"
  by (cases "Sections sc")
     (simp_all add: StandupConfig_IsValid_def ContainsDuplicates_iff standupSectionsMinLength_def)

theorem StandupConfig_IsValid_accepts_witness:
  "StandupConfig_IsValid demoEnv demoConfig = None \<and>
   \<not> After (Time (WindowOpenTime demoConfig)) (Time (WindowCloseTime demoConfig)) \<and>
   LoadLocationErr demoEnv (Timezone demoConfig) = None \<and>
   distinct (Sections demoConfig) \<and> distinct (Members demoConfig) \<and>
   \<not> distinct (Members dupMembersConfig) \<and>
   StandupConfig_IsValid demoEnv dupMembersConfig \<noteq> None"
proof -
  have v: "StandupConfig_IsValid demoEnv demoConfig = None"
    by (simp add: StandupConfig_IsValid_def demoEnv_def demoConfig_def nineAM_def fivePM_def
          emptyTime_def After_def standupSectionsMinLength_def ContainsDuplicates_def)
  have d: "\<not> distinct (Members dupMembersConfig)"
    by (simp add: dupMembersConfig_def)
  show ?thesis
    using v d StandupConfig_IsValid_accepts [of demoEnv demoConfig]
      StandupConfig_IsValid_accepts [of demoEnv dupMembersConfig]
    by simp
qed

theorem StandupConfig_IsValid_equal_times:
  "StandupConfig_IsValid demoEnv sameTimeConfig = None \<and>
   WindowOpenTime sameTimeConfig = WindowCloseTime sameTimeConfig"
  by (simp add: StandupConfig_IsValid_def demoEnv_def sameTimeConfig_def demoConfig_def nineAM_def
        emptyTime_def After_def standupSectionsMinLength_def ContainsDuplicates_def)

subsection \<open>Validity of a submission\<close>

lemma maxLen_loop_no_nil:
  "\<forall>entry\<in>set xs. snd entry \<noteq> None \<Longrightarrow>
   \<exists>n. maxLen_loop m xs = Inr n \<and> (n = 0 \<longleftrightarrow> m = 0 \<and> (\<forall>entry\<in>set xs. snd entry = Some []))"
proof (induction xs arbitrary: m)
  case Nil
  show ?case by simp
next
  case (Cons x xs)
  obtain s ts where x: "x = (s, Some ts)"
    using Cons.prems by (cases x) auto
  have "\<forall>entry\<in>set xs. snd entry \<noteq> None"
    using Cons.prems by simp
  from Cons.IH [OF this, of "util_Max m (length ts)"] show ?case
    by (auto simp: x util_Max_def split: if_splits)
qed

text \<open>
  C5, as the code has it. \<^verbatim>\<open>UserStandup.IsValid\<close> counts the entries of each section
  with \<^verbatim>\<open>len\<close>, whatever the entries are. When every section has no entries it returns
  an error. When the submission has a user id, the id of a channel that exists, no nil
  section, and a section with at least one entry (an empty string is an entry), it
  returns nil.
\<close>

theorem UserStandup_IsValid_counts_entries:
  "((\<forall>entry\<in>set (Standup us). snd entry = Some []) \<longrightarrow>
      (\<exists>e. UserStandup_IsValid env us = Inr (Some e))) \<and>
   (UserID us \<noteq> [] \<and> ChannelID us \<noteq> [] \<and> GetChannelErr env (ChannelID us) = None \<and>
    (\<forall>entry\<in>set (Standup us). snd entry \<noteq> None) \<and>
    (\<exists>entry\<in>set (Standup us). snd entry \<noteq> Some []) \<longrightarrow>
      UserStandup_IsValid env us = Inr None)"
proof (intro conjI impI)
  assume e: "\<forall>entry\<in>set (Standup us). snd entry = Some []"
  then have "\<forall>entry\<in>set (Standup us). snd entry \<noteq> None" by simp
  from maxLen_loop_no_nil [OF this, of 0] e have "maxLen_loop 0 (Standup us) = Inr 0"
    by auto
  then show "\<exists>e. UserStandup_IsValid env us = Inr (Some e)"
    by (simp add: UserStandup_IsValid_def)
next
  assume a: "UserID us \<noteq> [] \<and> ChannelID us \<noteq> [] \<and> GetChannelErr env (ChannelID us) = None \<and>
    (\<forall>entry\<in>set (Standup us). snd entry \<noteq> None) \<and>
    (\<exists>entry\<in>set (Standup us). snd entry \<noteq> Some [])"
  then have "\<forall>entry\<in>set (Standup us). snd entry \<noteq> None" by simp
  from maxLen_loop_no_nil [OF this, of 0] a
  obtain n where "maxLen_loop 0 (Standup us) = Inr n" "n \<noteq> 0"
    by auto
  with a show "UserStandup_IsValid env us = Inr None"
    by (simp add: UserStandup_IsValid_def)
qed

theorem UserStandup_IsValid_counts_entries_witness:
  "Standup emptyStandup = [(''Yesterday'', Some []), (''Today'', Some [])] \<and>
   UserStandup_IsValid demoEnv emptyStandup
     = Inr (Some (New ''No tasks found. Please specify tasks for at least one section'')) \<and>
   UserID demoStandup \<noteq> [] \<and> ChannelID demoStandup \<noteq> [] \<and>
   GetChannelErr demoEnv (ChannelID demoStandup) = None \<and>
   Standup demoStandup = [(''Yesterday'', Some []), (''Today'', Some [''ship the release''])] \<and>
   UserStandup_IsValid demoEnv demoStandup = Inr None"
proof -
  have s: "Standup emptyStandup = [(''Yesterday'', Some []), (''Today'', Some [])]"
    "Standup demoStandup = [(''Yesterday'', Some []), (''Today'', Some [''ship the release''])]"
    by (simp_all add: emptyStandup_def demoStandup_def)
  have i: "UserID demoStandup \<noteq> []" "ChannelID demoStandup \<noteq> []"
    "GetChannelErr demoEnv (ChannelID demoStandup) = None"
    by (simp_all add: demoStandup_def demoEnv_def)
  have e: "UserStandup_IsValid demoEnv emptyStandup
     = Inr (Some (New ''No tasks found. Please specify tasks for at least one section''))"
    using UserStandup_IsValid_counts_entries [of emptyStandup demoEnv, THEN conjunct1]
    by (auto simp: s UserStandup_IsValid_def emptyStandup_def demoStandup_def demoEnv_def
          util_Max_def)
  have v: "UserStandup_IsValid demoEnv demoStandup = Inr None"
    using UserStandup_IsValid_counts_entries [of demoStandup demoEnv, THEN conjunct2] i
    by (simp add: s)
  show ?thesis using s i e v by simp
qed

theorem UserStandup_IsValid_blank_entry:
  "Standup blankStandup = [(''Today'', Some [[]])] \<and>
   UserStandup_IsValid demoEnv blankStandup = Inr None"
  by (simp add: UserStandup_IsValid_def blankStandup_def demoStandup_def demoEnv_def util_Max_def)

subsection \<open>Defaults of the report command\<close>

lemma ToLower_private: "ToLower env ReportVisibilityPrivate = ReportVisibilityPrivate"
proof -
  have "isASCII ReportVisibilityPrivate"
    by code_simp
  moreover have "map toLower_byte ReportVisibilityPrivate = ReportVisibilityPrivate"
    by code_simp
  ultimately show ?thesis by (simp add: ToLower_def)
qed

lemma ToLower_public: "ToLower env ReportVisibilityPublic = ReportVisibilityPublic"
proof -
  have "isASCII ReportVisibilityPublic"
    by code_simp
  moreover have "map toLower_byte ReportVisibilityPublic = ReportVisibilityPublic"
    by code_simp
  ultimately show ?thesis by (simp add: ToLower_def)
qed

text \<open>
  C6. In a channel with a stored config \<open>cfg\<close>, write \<open>today\<close> for the current time in
  the zone of \<open>cfg\<close>, formatted with the layout \<^verbatim>\<open>02-01-2006\<close>. With no argument
  \<^verbatim>\<open>validateCommandStandup\<close> sets the visibility to \<^verbatim>\<open>private\<close> and the dates to the
  parsed \<open>today\<close>. With one argument that is not a visibility token it sets the
  visibility to \<^verbatim>\<open>private\<close> and parses the argument as the date. With one argument
  whose lower-case form is \<^verbatim>\<open>public\<close> or \<^verbatim>\<open>private\<close> it sets the visibility to that
  lower-case form and the dates to the parsed \<open>today\<close>. In each case a string that does
  not parse gives the error response, with the visibility already set.
\<close>

theorem validateCommandStandup_defaults:
  assumes "GetStandupConfig env w channelId = Inr (Some cfg)"
  shows
   "validateCommandStandup env w [] props channelId =
      (case Parse env dateLayout (Format env (Now env (Timezone cfg)) dateLayout) of
         Inl err \<Rightarrow>
           (Some (SendEphemeralText (''Error parsing this date: ''
                    @ Format env (Now env (Timezone cfg)) dateLayout
                    @ ''. Please specify date in format: DD-MM-YYYY'')),
            props\<lparr>visibility := Some ReportVisibilityPrivate, dates := Some [emptyTime, emptyTime]\<rparr>)
       | Inr t \<Rightarrow>
           (None, props\<lparr>visibility := Some ReportVisibilityPrivate, dates := Some [OTime t]\<rparr>)) \<and>
    (ToLower env arg \<noteq> ReportVisibilityPublic \<and> ToLower env arg \<noteq> ReportVisibilityPrivate \<longrightarrow>
     validateCommandStandup env w [arg] props channelId =
      (case Parse env dateLayout arg of
         Inl err \<Rightarrow>
           (Some (SendEphemeralText (''Error parsing this date: '' @ arg
                    @ ''. Please specify date in format: DD-MM-YYYY'')),
            props\<lparr>visibility := Some ReportVisibilityPrivate, dates := Some [emptyTime, emptyTime]\<rparr>)
       | Inr t \<Rightarrow>
           (None, props\<lparr>visibility := Some ReportVisibilityPrivate, dates := Some [OTime t]\<rparr>))) \<and>
    (ToLower env token = ReportVisibilityPublic \<or> ToLower env token = ReportVisibilityPrivate \<longrightarrow>
     validateCommandStandup env w [token] props channelId =
      (case Parse env dateLayout (Format env (Now env (Timezone cfg)) dateLayout) of
         Inl err \<Rightarrow>
           (Some (SendEphemeralText (''Error parsing this date: ''
                    @ Format env (Now env (Timezone cfg)) dateLayout
                    @ ''. Please specify date in format: DD-MM-YYYY'')),
            props\<lparr>visibility := Some (ToLower env token), dates := Some [emptyTime, emptyTime]\<rparr>)
       | Inr t \<Rightarrow>
           (None, props\<lparr>visibility := Some (ToLower env token), dates := Some [OTime t]\<rparr>)))"
proof (intro conjI impI)
  show "validateCommandStandup env w [] props channelId =
      (case Parse env dateLayout (Format env (Now env (Timezone cfg)) dateLayout) of
         Inl err \<Rightarrow>
           (Some (SendEphemeralText (''Error parsing this date: ''
                    @ Format env (Now env (Timezone cfg)) dateLayout
                    @ ''. Please specify date in format: DD-MM-YYYY'')),
            props\<lparr>visibility := Some ReportVisibilityPrivate, dates := Some [emptyTime, emptyTime]\<rparr>)
       | Inr t \<Rightarrow>
           (None, props\<lparr>visibility := Some ReportVisibilityPrivate, dates := Some [OTime t]\<rparr>))"
    using assms
    by (simp add: validateCommandStandup_def Let_def ToLower_private split: sum.splits)
next
  assume "ToLower env arg \<noteq> ReportVisibilityPublic \<and> ToLower env arg \<noteq> ReportVisibilityPrivate"
  then show "validateCommandStandup env w [arg] props channelId =
      (case Parse env dateLayout arg of
         Inl err \<Rightarrow>
           (Some (SendEphemeralText (''Error parsing this date: '' @ arg
                    @ ''. Please specify date in format: DD-MM-YYYY'')),
            props\<lparr>visibility := Some ReportVisibilityPrivate, dates := Some [emptyTime, emptyTime]\<rparr>)
       | Inr t \<Rightarrow>
           (None, props\<lparr>visibility := Some ReportVisibilityPrivate, dates := Some [OTime t]\<rparr>))"
    using assms
    by (simp add: validateCommandStandup_def Let_def ToLower_private split: sum.splits)
next
  assume "ToLower env token = ReportVisibilityPublic \<or> ToLower env token = ReportVisibilityPrivate"
  then show "validateCommandStandup env w [token] props channelId =
      (case Parse env dateLayout (Format env (Now env (Timezone cfg)) dateLayout) of
         Inl err \<Rightarrow>
           (Some (SendEphemeralText (''Error parsing this date: ''
                    @ Format env (Now env (Timezone cfg)) dateLayout
                    @ ''. Please specify date in format: DD-MM-YYYY'')),
            props\<lparr>visibility := Some (ToLower env token), dates := Some [emptyTime, emptyTime]\<rparr>)
       | Inr t \<Rightarrow>
           (None, props\<lparr>visibility := Some (ToLower env token), dates := Some [OTime t]\<rparr>))"
    using assms
    by (auto simp: validateCommandStandup_def Let_def ToLower_public ToLower_private split: sum.splits)
qed

theorem validateCommandStandup_defaults_witness:
  "GetStandupConfig demoEnv configuredWorld ''town-square'' = Inr (Some demoConfig) \<and>
   validateCommandStandup demoEnv configuredWorld [] emptyProps ''town-square'' =
     (None, emptyProps\<lparr>visibility := Some ''private'', dates := Some [jan1]\<rparr>) \<and>
   ToLower demoEnv ''02-01-2024'' \<noteq> ReportVisibilityPublic \<and>
   ToLower demoEnv ''02-01-2024'' \<noteq> ReportVisibilityPrivate \<and>
   validateCommandStandup demoEnv configuredWorld [''02-01-2024''] emptyProps ''town-square'' =
     (None, emptyProps\<lparr>visibility := Some ''private'', dates := Some [jan2]\<rparr>) \<and>
   ToLower demoEnv ''PUBLIC'' = ReportVisibilityPublic \<and>
   validateCommandStandup demoEnv configuredWorld [''PUBLIC''] emptyProps ''town-square'' =
     (None, emptyProps\<lparr>visibility := Some ''public'', dates := Some [jan1]\<rparr>) \<and>
   ToLower demoEnv (''PUBL'' @ [CHR 0xC4, CHR 0xB0] @ ''C'') = ReportVisibilityPublic \<and>
   validateCommandStandup demoEnv configuredWorld [''PUBL'' @ [CHR 0xC4, CHR 0xB0] @ ''C'']
       emptyProps ''town-square'' =
     (None, emptyProps\<lparr>visibility := Some ''public'', dates := Some [jan1]\<rparr>)"
proof -
  have h: "GetStandupConfig demoEnv configuredWorld ''town-square'' = Inr (Some demoConfig)"
    by (simp add: GetStandupConfig_def KVGet_def Let_def demoEnv_def configuredWorld_def emptyWorld_def)
  have today: "Format demoEnv (Now demoEnv (Timezone demoConfig)) dateLayout = ''01-01-2024''"
    by (simp add: demoEnv_def)
  have parse: "Parse demoEnv dateLayout ''01-01-2024'' = Inr (Time jan1)"
    "Parse demoEnv dateLayout ''02-01-2024'' = Inr (Time jan2)"
    by (simp_all add: demoEnv_def)
  have a1: "ToLower demoEnv ''02-01-2024'' \<noteq> ReportVisibilityPublic"
    by code_simp
  have a2: "ToLower demoEnv ''02-01-2024'' \<noteq> ReportVisibilityPrivate"
    by code_simp
  have a3: "ToLower demoEnv ''PUBLIC'' = ReportVisibilityPublic"
    by code_simp
  have a4: "ToLower demoEnv (''PUBL'' @ [CHR 0xC4, CHR 0xB0] @ ''C'') = ReportVisibilityPublic"
    by code_simp
  note d = validateCommandStandup_defaults [OF h, of emptyProps "''02-01-2024''" "''PUBLIC''"]
  note d' = validateCommandStandup_defaults
    [OF h, of emptyProps "''02-01-2024''" "''PUBL'' @ [CHR 0xC4, CHR 0xB0] @ ''C''"]
  have r1: "validateCommandStandup demoEnv configuredWorld [] emptyProps ''town-square'' =
     (None, emptyProps\<lparr>visibility := Some ''private'', dates := Some [jan1]\<rparr>)"
    using d [THEN conjunct1] by (simp add: today parse ReportVisibilityPrivate_def)
  have r2: "validateCommandStandup demoEnv configuredWorld [''02-01-2024''] emptyProps ''town-square'' =
     (None, emptyProps\<lparr>visibility := Some ''private'', dates := Some [jan2]\<rparr>)"
    using d [THEN conjunct2, THEN conjunct1] a1 a2 by (simp add: parse ReportVisibilityPrivate_def)
  have r3: "validateCommandStandup demoEnv configuredWorld [''PUBLIC''] emptyProps ''town-square'' =
     (None, emptyProps\<lparr>visibility := Some ''public'', dates := Some [jan1]\<rparr>)"
    using d [THEN conjunct2, THEN conjunct2] a3 by (simp add: today parse ReportVisibilityPublic_def)
  have r4: "validateCommandStandup demoEnv configuredWorld [''PUBL'' @ [CHR 0xC4, CHR 0xB0] @ ''C'']
       emptyProps ''town-square'' =
     (None, emptyProps\<lparr>visibility := Some ''public'', dates := Some [jan1]\<rparr>)"
    using d' [THEN conjunct2, THEN conjunct2, unfolded a4]
    by (simp add: today parse ReportVisibilityPublic_def)
  show ?thesis using h r1 a1 a2 r2 a3 r3 a4 r4 by blast
qed

subsection \<open>Adding members\<close>

lemma UniqString_from_cong:
  "set seen = set seen' \<Longrightarrow> UniqString_from seen xs = UniqString_from seen' xs"
proof (induction xs arbitrary: seen seen')
  case Nil
  show ?case by simp
next
  case (Cons x xs)
  have "UniqString_from (x # seen) xs = UniqString_from (x # seen') xs"
    using Cons.prems by (intro Cons.IH) simp
  moreover have "UniqString_from seen xs = UniqString_from seen' xs"
    using Cons.prems by (rule Cons.IH)
  ultimately show ?case using Cons.prems by simp
qed

lemma validateAddMembers_loop_unknown:
  "\<forall>n\<in>fst ` set m. \<not> isl (GetUserByUsername env n) \<Longrightarrow>
   \<exists>u\<in>set args. isl (GetUserByUsername env (TrimLeft u ''@'')) \<Longrightarrow>
   \<exists>response. validateAddMembers_loop env m args = Inl response"
proof (induction args arbitrary: m)
  case Nil
  then show ?case by simp
next
  case (Cons u rest)
  let ?n = "TrimLeft u ''@''"
  show ?case
  proof (cases "map_of m ?n \<noteq> None")
    case True
    then have "?n \<in> fst ` set m"
      by (simp add: map_of_eq_None_iff)
    with Cons.prems have "\<exists>u\<in>set rest. isl (GetUserByUsername env (TrimLeft u ''@''))"
      by auto
    with Cons.IH [OF Cons.prems(1)] True show ?thesis
      by (simp add: Let_def)
  next
    case False
    show ?thesis
    proof (cases "GetUserByUsername env ?n")
      case (Inl err)
      with False show ?thesis by (simp add: Let_def)
    next
      case (Inr userId)
      have inv: "\<forall>n\<in>fst ` set (m @ [(?n, userId)]). \<not> isl (GetUserByUsername env n)"
        using Cons.prems(1) Inr by auto
      have "\<exists>u\<in>set rest. isl (GetUserByUsername env (TrimLeft u ''@''))"
        using Cons.prems(2) Inr by auto
      with Cons.IH [OF inv] False Inr show ?thesis
        by (simp add: Let_def)
    qed
  qed
qed

lemma validateAddMembers_loop_known:
  "\<forall>u\<in>set args. GetUserByUsername env (TrimLeft u ''@'') = Inr (f (TrimLeft u ''@'')) \<Longrightarrow>
   validateAddMembers_loop env m args =
     Inr (m @ map (\<lambda>n. (n, f n))
                 (UniqString_from (map fst m) (map (\<lambda>u. TrimLeft u ''@'') args)))"
proof (induction args arbitrary: m)
  case Nil
  show ?case by simp
next
  case (Cons u rest)
  let ?n = "TrimLeft u ''@''"
  have rest: "\<forall>u\<in>set rest. GetUserByUsername env (TrimLeft u ''@'') = Inr (f (TrimLeft u ''@''))"
    using Cons.prems by simp
  have u: "GetUserByUsername env ?n = Inr (f ?n)"
    using Cons.prems by simp
  show ?case
  proof (cases "map_of m ?n \<noteq> None")
    case True
    then have "?n \<in> set (map fst m)"
      by (simp add: map_of_eq_None_iff)
    with Cons.IH [OF rest, of m] True show ?thesis
      by (simp add: Let_def)
  next
    case False
    then have notin: "?n \<notin> set (map fst m)"
      by (simp add: map_of_eq_None_iff)
    have "UniqString_from (map fst (m @ [(?n, f ?n)])) (map (\<lambda>u. TrimLeft u ''@'') rest)
            = UniqString_from (?n # map fst m) (map (\<lambda>u. TrimLeft u ''@'') rest)"
      by (rule UniqString_from_cong) auto
    with Cons.IH [OF rest, of "m @ [(?n, f ?n)]"] False u notin show ?thesis
      by (simp add: Let_def)
  qed
qed

lemma addChannelMembers_loop_filter:
  "addChannelMembers_loop env w channelID addedUsers notAddedUsers ids =
     ((addedUsers @ filter (\<lambda>u. AddChannelMemberErr env channelID u = None) ids,
       notAddedUsers @ filter (\<lambda>u. AddChannelMemberErr env channelID u \<noteq> None) ids),
      w\<lparr>channelMembers := channelMembers w \<union>
           Pair channelID ` set (filter (\<lambda>u. AddChannelMemberErr env channelID u = None) ids)\<rparr>)"
proof (induction ids arbitrary: w addedUsers notAddedUsers)
  case Nil
  show ?case by simp
next
  case (Cons u rest)
  show ?case
    by (cases "AddChannelMemberErr env channelID u")
       (simp_all add: AddChannelMember_def Cons.IH)
qed

lemma addStandupMembers_channelMembers:
  "channelMembers (snd (addStandupMembers env w usernames channelID)) = channelMembers w"
proof -
  have save: "channelMembers (snd (SaveStandupConfig env w sc)) = channelMembers w" for sc
    using SaveStandupConfig_cases [of env w sc] by auto
  show ?thesis
  proof (cases "GetStandupConfig env w channelID")
    case (Inl err)
    then show ?thesis by (simp add: addStandupMembers_def)
  next
    case (Inr found)
    show ?thesis
    proof (cases found)
      case None
      with Inr show ?thesis by (simp add: addStandupMembers_def)
    next
      case (Some cfg)
      have "snd (addStandupMembers env w usernames channelID)
              = snd (SaveStandupConfig env w (cfg\<lparr>Members := Members cfg @ usernames\<rparr>))"
        using Inr Some by (simp add: addStandupMembers_def split: prod.splits sum.splits)
      then show ?thesis by (simp add: save)
    qed
  qed
qed

text \<open>
  C7, as the code has it. (1) When the name of some argument, with its leading \<^verbatim>\<open>@\<close>
  removed, does not resolve, \<^verbatim>\<open>validateAddMembers\<close> answers with an error response, and
  the command ends there: nothing is added and the state is unchanged. (2) When every
  name resolves, validation stores one id for each distinct name (the statement leaves
  their order open, as Go's map iteration does). (3)
  \<^verbatim>\<open>addChannelMembers\<close> tries every id: the ids the chat server accepts are added to the
  channel and returned as added, the others are returned as not added, and a failure
  does not stop the loop. (4) When the standup config is then updated without error,
  \<^verbatim>\<open>executeAddMembers\<close> answers with the message built from the two lists (the count of
  added users and the ids that could not be added); that response carries
  \<^verbatim>\<open>ephemeral\<close> in its field \<^verbatim>\<open>Type\<close> and leaves \<^verbatim>\<open>ResponseType\<close> empty.
\<close>

theorem add_members_partial_failure:
  "((\<exists>u\<in>set args. isl (GetUserByUsername env (TrimLeft u ''@''))) \<longrightarrow>
      (\<exists>response. validateAddMembers env args props = (Some response, props) \<and>
                  ExecuteCommand_addmembers env w args channelId = Inr (response, w))) \<and>
   (args \<noteq> [] \<and>
    (\<forall>u\<in>set args. GetUserByUsername env (TrimLeft u ''@'') = Inr (f (TrimLeft u ''@''))) \<longrightarrow>
      (\<exists>resolved.
         validateAddMembers env args props = (None, props\<lparr>userIds := Some resolved\<rparr>) \<and>
         set resolved = f ` set (UniqString (map (\<lambda>u. TrimLeft u ''@'') args)) \<and>
         length resolved = length (UniqString (map (\<lambda>u. TrimLeft u ''@'') args)))) \<and>
   addChannelMembers env w ids channelId =
     ((filter (\<lambda>u. AddChannelMemberErr env channelId u = None) ids,
       filter (\<lambda>u. AddChannelMemberErr env channelId u \<noteq> None) ids),
      w\<lparr>channelMembers := channelMembers w \<union>
           Pair channelId ` set (filter (\<lambda>u. AddChannelMemberErr env channelId u = None) ids)\<rparr>) \<and>
   (userIds props = Some ids \<and>
    fst (addStandupMembers env (snd (addChannelMembers env w ids channelId))
           (filter (\<lambda>u. AddChannelMemberErr env channelId u = None) ids) channelId) = None \<longrightarrow>
      (\<exists>w'. executeAddMembers env w props channelId =
               Inr (\<lparr>ResponseType = [],
                     Text = buildSuccessMessage
                       (filter (\<lambda>u. AddChannelMemberErr env channelId u = None) ids)
                       (filter (\<lambda>u. AddChannelMemberErr env channelId u \<noteq> None) ids),
                     Type = COMMAND_RESPONSE_TYPE_EPHEMERAL\<rparr>, w') \<and>
             channelMembers w' = channelMembers w \<union>
               Pair channelId ` set (filter (\<lambda>u. AddChannelMemberErr env channelId u = None) ids)))"
proof (intro conjI impI)
  assume unknown: "\<exists>u\<in>set args. isl (GetUserByUsername env (TrimLeft u ''@''))"
  then have "args \<noteq> []" by auto
  moreover obtain response where "validateAddMembers_loop env [] args = Inl response"
    using validateAddMembers_loop_unknown [OF _ unknown, of "[]"] by auto
  ultimately have "validateAddMembers env args p = (Some response, p)" for p
    by (cases args) (simp_all add: validateAddMembers_def)
  then show "\<exists>response. validateAddMembers env args props = (Some response, props) \<and>
                  ExecuteCommand_addmembers env w args channelId = Inr (response, w)"
    by (simp add: ExecuteCommand_addmembers_def)
next
  assume "args \<noteq> [] \<and>
    (\<forall>u\<in>set args. GetUserByUsername env (TrimLeft u ''@'') = Inr (f (TrimLeft u ''@'')))"
  then have "validateAddMembers env args props =
        (None, props\<lparr>userIds := Some (map f (UniqString (map (\<lambda>u. TrimLeft u ''@'') args)))\<rparr>)"
    using validateAddMembers_loop_known [of args env f "[]"]
    by (cases args) (simp_all add: validateAddMembers_def UniqString_def comp_def)
  then show "\<exists>resolved.
         validateAddMembers env args props = (None, props\<lparr>userIds := Some resolved\<rparr>) \<and>
         set resolved = f ` set (UniqString (map (\<lambda>u. TrimLeft u ''@'') args)) \<and>
         length resolved = length (UniqString (map (\<lambda>u. TrimLeft u ''@'') args))"
    by (intro exI [where x = "map f (UniqString (map (\<lambda>u. TrimLeft u ''@'') args))"]) simp
next
  show "addChannelMembers env w ids channelId =
     ((filter (\<lambda>u. AddChannelMemberErr env channelId u = None) ids,
       filter (\<lambda>u. AddChannelMemberErr env channelId u \<noteq> None) ids),
      w\<lparr>channelMembers := channelMembers w \<union>
           Pair channelId ` set (filter (\<lambda>u. AddChannelMemberErr env channelId u = None) ids)\<rparr>)"
    by (simp add: addChannelMembers_def addChannelMembers_loop_filter)
next
  let ?ok = "filter (\<lambda>u. AddChannelMemberErr env channelId u = None) ids"
  let ?w1 = "snd (addChannelMembers env w ids channelId)"
  assume a: "userIds props = Some ids \<and> fst (addStandupMembers env ?w1 ?ok channelId) = None"
  have w1: "channelMembers ?w1 = channelMembers w \<union> Pair channelId ` set ?ok"
    by (simp add: addChannelMembers_def addChannelMembers_loop_filter)
  have "channelMembers (snd (addStandupMembers env ?w1 ?ok channelId)) = channelMembers ?w1"
    by (rule addStandupMembers_channelMembers)
  with a w1 show "\<exists>w'. executeAddMembers env w props channelId =
               Inr (\<lparr>ResponseType = [],
                     Text = buildSuccessMessage ?ok
                       (filter (\<lambda>u. AddChannelMemberErr env channelId u \<noteq> None) ids),
                     Type = COMMAND_RESPONSE_TYPE_EPHEMERAL\<rparr>, w') \<and>
             channelMembers w' = channelMembers w \<union> Pair channelId ` set ?ok"
    by (cases "addStandupMembers env ?w1 ?ok channelId")
       (auto simp: executeAddMembers_def addChannelMembers_def addChannelMembers_loop_filter)
qed

theorem ExecuteCommand_addmembers_unknown_user:
  "GetUserByUsername demoEnv ''alice'' = Inr ''id-alice'' \<and>
   AddChannelMemberErr demoEnv ''town-square'' ''id-alice'' = None \<and>
   ExecuteCommand_addmembers demoEnv configuredWorld [''@alice'', ''carol''] ''town-square'' =
     Inr (SendEphemeralText ''Couldn't find user with username: carol'', configuredWorld)"
  by (simp add: ExecuteCommand_addmembers_def validateAddMembers_def TrimLeft_def Let_def
        demoEnv_def)

theorem add_members_partial_failure_witness:
  "isl (GetUserByUsername demoEnv (TrimLeft ''carol'' ''@'')) \<and>
   (\<exists>response.
      validateAddMembers demoEnv [''@alice'', ''carol''] emptyProps = (Some response, emptyProps) \<and>
      ExecuteCommand_addmembers demoEnv configuredWorld [''@alice'', ''carol''] ''town-square''
        = Inr (response, configuredWorld)) \<and>
   GetUserByUsername demoEnv (TrimLeft ''@alice'' ''@'') = Inr ''id-alice'' \<and>
   GetUserByUsername demoEnv (TrimLeft ''bob'' ''@'') = Inr ''id-bob'' \<and>
   (\<exists>resolved.
      validateAddMembers demoEnv [''@alice'', ''bob'', ''alice''] emptyProps =
        (None, emptyProps\<lparr>userIds := Some resolved\<rparr>) \<and>
      set resolved = {''id-alice'', ''id-bob''} \<and> length resolved = 2) \<and>
   addChannelMembers demoEnv configuredWorld [''id-alice'', ''id-bob''] ''town-square'' =
     (([''id-alice''], [''id-bob'']),
      configuredWorld\<lparr>channelMembers := {(''town-square'', ''id-alice'')}\<rparr>) \<and>
   fst (addStandupMembers demoEnv
         (snd (addChannelMembers demoEnv configuredWorld [''id-alice'', ''id-bob''] ''town-square''))
         [''id-alice''] ''town-square'') = None \<and>
   (\<exists>w'. executeAddMembers demoEnv configuredWorld
            (emptyProps\<lparr>userIds := Some [''id-alice'', ''id-bob'']\<rparr>) ''town-square'' =
            Inr (\<lparr>ResponseType = [],
                  Text = ''1 users added successfully. Following users couldn't be added: id-bob''
                    @ [CHR 0x0A] @ ''Make sure these users users exist on the system.'',
                  Type = ''ephemeral''\<rparr>, w') \<and>
          channelMembers w' = {(''town-square'', ''id-alice'')})"
proof -
  let ?f = "\<lambda>n. if n = ''alice'' then ''id-alice'' else ''id-bob''"
  let ?props = "emptyProps\<lparr>userIds := Some [''id-alice'', ''id-bob'']\<rparr>"
  have ok: "filter (\<lambda>u. AddChannelMemberErr demoEnv ''town-square'' u = None) [''id-alice'', ''id-bob'']
              = [''id-alice'']"
    "filter (\<lambda>u. AddChannelMemberErr demoEnv ''town-square'' u \<noteq> None) [''id-alice'', ''id-bob'']
              = [''id-bob'']"
    by (simp_all add: demoEnv_def)
  have msg: "buildSuccessMessage [''id-alice''] [''id-bob''] =
      ''1 users added successfully. Following users couldn't be added: id-bob''
        @ [CHR 0x0A] @ ''Make sure these users users exist on the system.''"
    by code_simp
  have h1: "isl (GetUserByUsername demoEnv (TrimLeft ''carol'' ''@''))"
    by (simp add: TrimLeft_def demoEnv_def)
  then have h1': "\<exists>u\<in>set [''@alice'', ''carol'']. isl (GetUserByUsername demoEnv (TrimLeft u ''@''))"
    by simp
  have r1: "\<exists>response.
      validateAddMembers demoEnv [''@alice'', ''carol''] emptyProps = (Some response, emptyProps) \<and>
      ExecuteCommand_addmembers demoEnv configuredWorld [''@alice'', ''carol''] ''town-square''
        = Inr (response, configuredWorld)"
    using add_members_partial_failure
      [where args = "[''@alice'', ''carol'']" and env = demoEnv and props = emptyProps
         and w = configuredWorld and channelId = "''town-square''", THEN conjunct1] h1'
    by blast
  have h2: "GetUserByUsername demoEnv (TrimLeft ''@alice'' ''@'') = Inr ''id-alice''"
    "GetUserByUsername demoEnv (TrimLeft ''bob'' ''@'') = Inr ''id-bob''"
    "GetUserByUsername demoEnv (TrimLeft ''alice'' ''@'') = Inr ''id-alice''"
    by (simp_all add: TrimLeft_def demoEnv_def)
  have t: "TrimLeft ''@alice'' ''@'' = ''alice''" "TrimLeft ''bob'' ''@'' = ''bob''"
    "TrimLeft ''alice'' ''@'' = ''alice''"
    by (simp_all add: TrimLeft_def)
  have h2': "[''@alice'', ''bob'', ''alice''] \<noteq> [] \<and>
    (\<forall>u\<in>set [''@alice'', ''bob'', ''alice''].
       GetUserByUsername demoEnv (TrimLeft u ''@'') = Inr (?f (TrimLeft u ''@'')))"
    using h2 by (simp add: t)
  have r2: "\<exists>resolved.
      validateAddMembers demoEnv [''@alice'', ''bob'', ''alice''] emptyProps =
        (None, emptyProps\<lparr>userIds := Some resolved\<rparr>) \<and>
      set resolved = {''id-alice'', ''id-bob''} \<and> length resolved = 2"
    using add_members_partial_failure
      [where args = "[''@alice'', ''bob'', ''alice'']" and env = demoEnv and props = emptyProps
         and f = ?f, THEN conjunct2, THEN conjunct1, rule_format, OF h2']
    by (simp add: t UniqString_def insert_commute numeral_2_eq_2)
  note rest = add_members_partial_failure
      [where env = demoEnv and props = ?props and w = configuredWorld
         and channelId = "''town-square''" and ids = "[''id-alice'', ''id-bob'']",
       THEN conjunct2, THEN conjunct2]
  have r3: "addChannelMembers demoEnv configuredWorld [''id-alice'', ''id-bob''] ''town-square'' =
     (([''id-alice''], [''id-bob'']),
      configuredWorld\<lparr>channelMembers := {(''town-square'', ''id-alice'')}\<rparr>)"
    using rest [THEN conjunct1, unfolded ok] by (simp add: configuredWorld_def emptyWorld_def)
  have h4: "fst (addStandupMembers demoEnv
         (snd (addChannelMembers demoEnv configuredWorld [''id-alice'', ''id-bob''] ''town-square''))
         [''id-alice''] ''town-square'') = None"
    unfolding r3
    by (simp add: addStandupMembers_def GetStandupConfig_def KVGet_def Let_def
          SaveStandupConfig_def KVSet_def UniqString_def demoEnv_def configuredWorld_def
          emptyWorld_def demoConfig_def)
  have u: "userIds ?props = Some [''id-alice'', ''id-bob'']"
    by simp
  have r4: "\<exists>w'. executeAddMembers demoEnv configuredWorld ?props ''town-square'' =
            Inr (\<lparr>ResponseType = [],
                  Text = ''1 users added successfully. Following users couldn't be added: id-bob''
                    @ [CHR 0x0A] @ ''Make sure these users users exist on the system.'',
                  Type = ''ephemeral''\<rparr>, w') \<and>
          channelMembers w' = {(''town-square'', ''id-alice'')}"
    using rest [THEN conjunct2, unfolded ok msg] u h4 [unfolded r3]
    unfolding r3
    by (simp add: COMMAND_RESPONSE_TYPE_EPHEMERAL_def configuredWorld_def emptyWorld_def)
  show ?thesis
    using h1 r1 h2(1,2) r2 r3 h4 r4 by blast
qed

subsection \<open>What a save checks and the channel registry\<close>

lemma SaveStandupConfig_other_keys:
  "k \<noteq> GetKeyHash env (CacheKeyPrefixTeamStandupConfig env @ ChannelId sc) \<Longrightarrow>
   kv (snd (SaveStandupConfig env w sc)) k = kv w k"
  using SaveStandupConfig_cases [of env w sc] by auto

lemma AddStandupChannel_twice:
  assumes roundtrip:
    "\<forall>channels data. GetStandupChannels env w = Inr (Some channels) \<and>
        MarshalChannels env (channels(channelID \<mapsto> channelID)) = Inr data \<longrightarrow>
        data \<noteq> [] \<and> UnmarshalChannels env data = Inr (Some (channels(channelID \<mapsto> channelID)))"
  shows "(\<forall>err w'. AddStandupChannel env w channelID = Inr (err, w') \<longrightarrow>
            AddStandupChannel env w' channelID = Inr (err, w')) \<and>
         (\<forall>w'. AddStandupChannel env w channelID = Inr (None, w') \<longrightarrow>
            (\<exists>channels. GetStandupChannels env w = Inr (Some channels) \<and>
               GetStandupChannels env w' = Inr (Some (channels(channelID \<mapsto> channelID)))))"
proof (cases "GetStandupChannels env w")
  case (Inl err)
  then show ?thesis by (auto simp: AddStandupChannel_def)
next
  case (Inr found)
  show ?thesis
  proof (cases found)
    case None
    with Inr show ?thesis by (simp add: AddStandupChannel_def)
  next
    case (Some channels)
    let ?m = "channels(channelID \<mapsto> channelID)"
    let ?rk = "GetKeyHash env (CacheKeyAllStandupChannels env)"
    have found: "GetStandupChannels env w = Inr (Some channels)"
      using Inr Some by simp
    have get: "KVGetErr env ?rk = None"
      using found by (simp add: GetStandupChannels_def KVGet_def split: option.splits)
    show ?thesis
    proof (cases "MarshalChannels env ?m")
      case (Inl err)
      with found show ?thesis by (auto simp: AddStandupChannel_def setStandupChannels_def)
    next
      case marshalled: (Inr data)
      from roundtrip found marshalled
      have data: "data \<noteq> []" "UnmarshalChannels env data = Inr (Some ?m)"
        by auto
      show ?thesis
      proof (cases "KVSetErr env ?rk data")
        case (Some appErr)
        with found marshalled show ?thesis
          by (auto simp: AddStandupChannel_def setStandupChannels_def KVSet_def)
      next
        case None
        let ?w' = "w\<lparr>kv := (kv w)(?rk \<mapsto> data)\<rparr>"
        have first: "AddStandupChannel env w channelID = Inr (None, ?w')"
          using found marshalled None
          by (simp add: AddStandupChannel_def setStandupChannels_def KVSet_def)
        have get': "GetStandupChannels env ?w' = Inr (Some ?m)"
          using get data by (simp add: GetStandupChannels_def KVGet_def)
        have "AddStandupChannel env ?w' channelID = Inr (None, ?w')"
          using get' marshalled None
          by (simp add: AddStandupChannel_def setStandupChannels_def KVSet_def)
        with first get' found show ?thesis by simp
      qed
    qed
  qed
qed

text \<open>
  C1, as the code has it. \<^verbatim>\<open>SaveStandupConfig\<close> does not call \<^verbatim>\<open>IsValid\<close> and does not
  call \<^verbatim>\<open>AddStandupChannel\<close>: for every config, valid or not, whose encoding and write
  succeed it stores the config (with its members deduplicated) under the hash of the
  prefix and the channel id, and no save changes any other key, the key of the registry
  included. \<^verbatim>\<open>AddStandupChannel\<close>, called by itself, adds to the registry and is
  idempotent: when the registry's encoding is not empty and decodes to the registry, a
  call that returns without error leaves the registry that was there with the channel
  id mapped to itself and every other entry as it was, and a second call with the same
  channel id on the state a first call leaves returns what the first returned and
  leaves that state.
\<close>

theorem SaveStandupConfig_no_validation:
  "(MarshalConfig env (sc\<lparr>Members := UniqString (Members sc)\<rparr>) = Inr data \<and>
    KVSetErr env (GetKeyHash env (CacheKeyPrefixTeamStandupConfig env @ ChannelId sc)) data = None \<longrightarrow>
      SaveStandupConfig env w sc =
        (Inr (sc\<lparr>Members := UniqString (Members sc)\<rparr>),
         w\<lparr>kv := (kv w)(GetKeyHash env (CacheKeyPrefixTeamStandupConfig env @ ChannelId sc) \<mapsto> data)\<rparr>)) \<and>
   (k \<noteq> GetKeyHash env (CacheKeyPrefixTeamStandupConfig env @ ChannelId sc) \<longrightarrow>
      kv (snd (SaveStandupConfig env w sc)) k = kv w k) \<and>
   ((\<forall>channels bytes. GetStandupChannels env w = Inr (Some channels) \<and>
        MarshalChannels env (channels(channelID \<mapsto> channelID)) = Inr bytes \<longrightarrow>
        bytes \<noteq> [] \<and>
        UnmarshalChannels env bytes = Inr (Some (channels(channelID \<mapsto> channelID)))) \<longrightarrow>
      (\<forall>err w'. AddStandupChannel env w channelID = Inr (err, w') \<longrightarrow>
         AddStandupChannel env w' channelID = Inr (err, w')) \<and>
      (\<forall>w'. AddStandupChannel env w channelID = Inr (None, w') \<longrightarrow>
         (\<exists>channels. GetStandupChannels env w = Inr (Some channels) \<and>
            GetStandupChannels env w' = Inr (Some (channels(channelID \<mapsto> channelID))))))"
proof (intro conjI impI)
  assume "MarshalConfig env (sc\<lparr>Members := UniqString (Members sc)\<rparr>) = Inr data \<and>
    KVSetErr env (GetKeyHash env (CacheKeyPrefixTeamStandupConfig env @ ChannelId sc)) data = None"
  then show "SaveStandupConfig env w sc =
        (Inr (sc\<lparr>Members := UniqString (Members sc)\<rparr>),
         w\<lparr>kv := (kv w)(GetKeyHash env (CacheKeyPrefixTeamStandupConfig env @ ChannelId sc) \<mapsto> data)\<rparr>)"
    using SaveStandupConfig_written [of env sc data w] by simp
next
  assume "k \<noteq> GetKeyHash env (CacheKeyPrefixTeamStandupConfig env @ ChannelId sc)"
  then show "kv (snd (SaveStandupConfig env w sc)) k = kv w k"
    by (rule SaveStandupConfig_other_keys)
next
  assume r: "\<forall>channels bytes. GetStandupChannels env w = Inr (Some channels) \<and>
        MarshalChannels env (channels(channelID \<mapsto> channelID)) = Inr bytes \<longrightarrow>
        bytes \<noteq> [] \<and>
        UnmarshalChannels env bytes = Inr (Some (channels(channelID \<mapsto> channelID)))"
  show "\<forall>err w'. AddStandupChannel env w channelID = Inr (err, w') \<longrightarrow>
         AddStandupChannel env w' channelID = Inr (err, w')"
    using AddStandupChannel_twice [OF r] by (rule conjunct1)
  show "\<forall>w'. AddStandupChannel env w channelID = Inr (None, w') \<longrightarrow>
         (\<exists>channels. GetStandupChannels env w = Inr (Some channels) \<and>
            GetStandupChannels env w' = Inr (Some (channels(channelID \<mapsto> channelID))))"
    using AddStandupChannel_twice [OF r] by (rule conjunct2)
qed

theorem SaveStandupConfig_invalid_config:
  "StandupConfig_IsValid demoEnv noSectionConfig
     = Some (New ''Too few sections in standup. Required at least 1 section.'') \<and>
   SaveStandupConfig demoEnv emptyWorld noSectionConfig =
     (Inr noSectionConfig,
      emptyWorld\<lparr>kv := (kv emptyWorld)(''#standup_config_town-square'' \<mapsto> ''{channelId:town-square}'')\<rparr>) \<and>
   kv (snd (SaveStandupConfig demoEnv emptyWorld noSectionConfig))
      (GetKeyHash demoEnv (CacheKeyAllStandupChannels demoEnv)) = None"
proof -
  have u: "noSectionConfig\<lparr>Members := UniqString (Members noSectionConfig)\<rparr> = noSectionConfig"
    by (simp add: noSectionConfig_def demoConfig_def UniqString_def)
  have v: "StandupConfig_IsValid demoEnv noSectionConfig
     = Some (New ''Too few sections in standup. Required at least 1 section.'')"
    by (simp add: StandupConfig_IsValid_def demoEnv_def noSectionConfig_def demoConfig_def
          nineAM_def fivePM_def emptyTime_def After_def standupSectionsMinLength_def)
  have s: "SaveStandupConfig demoEnv emptyWorld noSectionConfig =
     (Inr noSectionConfig,
      emptyWorld\<lparr>kv := (kv emptyWorld)(''#standup_config_town-square'' \<mapsto> ''{channelId:town-square}'')\<rparr>)"
    using SaveStandupConfig_written [of demoEnv noSectionConfig "''{channelId:town-square}''" emptyWorld]
    unfolding u by (simp add: demoEnv_def noSectionConfig_def demoConfig_def)
  show ?thesis
    unfolding s using v by (simp add: demoEnv_def emptyWorld_def)
qed

theorem SaveStandupConfig_no_validation_witness:
  "MarshalConfig demoEnv (noSectionConfig\<lparr>Members := UniqString (Members noSectionConfig)\<rparr>)
     = Inr ''{channelId:town-square}'' \<and>
   KVSetErr demoEnv (GetKeyHash demoEnv (CacheKeyPrefixTeamStandupConfig demoEnv @ ChannelId noSectionConfig))
     ''{channelId:town-square}'' = None \<and>
   StandupConfig_IsValid demoEnv noSectionConfig \<noteq> None \<and>
   fst (SaveStandupConfig demoEnv emptyWorld noSectionConfig) = Inr noSectionConfig \<and>
   kv (snd (SaveStandupConfig demoEnv emptyWorld noSectionConfig)) ''#standup_config_town-square''
     = Some ''{channelId:town-square}'' \<and>
   ''#all_standup_channels''
     \<noteq> GetKeyHash demoEnv (CacheKeyPrefixTeamStandupConfig demoEnv @ ChannelId noSectionConfig) \<and>
   kv (snd (SaveStandupConfig demoEnv emptyWorld noSectionConfig)) ''#all_standup_channels''
     = kv emptyWorld ''#all_standup_channels'' \<and>
   GetStandupChannels demoEnv registeredWorld = Inr (Some [''off-topic'' \<mapsto> ''off-topic'']) \<and>
   MarshalChannels demoEnv [''off-topic'' \<mapsto> ''off-topic'', ''town-square'' \<mapsto> ''town-square'']
     = Inr ''{off-topic;town-square;}'' \<and>
   UnmarshalChannels demoEnv ''{off-topic;town-square;}''
     = Inr (Some [''off-topic'' \<mapsto> ''off-topic'', ''town-square'' \<mapsto> ''town-square'']) \<and>
   AddStandupChannel demoEnv registeredWorld ''town-square'' =
     Inr (None, registeredWorld\<lparr>kv := (kv registeredWorld)
                  (''#all_standup_channels'' \<mapsto> ''{off-topic;town-square;}'')\<rparr>) \<and>
   AddStandupChannel demoEnv
       (registeredWorld\<lparr>kv := (kv registeredWorld)
          (''#all_standup_channels'' \<mapsto> ''{off-topic;town-square;}'')\<rparr>) ''town-square'' =
     Inr (None, registeredWorld\<lparr>kv := (kv registeredWorld)
                  (''#all_standup_channels'' \<mapsto> ''{off-topic;town-square;}'')\<rparr>) \<and>
   GetStandupChannels demoEnv
       (registeredWorld\<lparr>kv := (kv registeredWorld)
          (''#all_standup_channels'' \<mapsto> ''{off-topic;town-square;}'')\<rparr>) =
     Inr (Some [''off-topic'' \<mapsto> ''off-topic'', ''town-square'' \<mapsto> ''town-square''])"
proof -
  let ?w1 = "registeredWorld\<lparr>kv := (kv registeredWorld)
          (''#all_standup_channels'' \<mapsto> ''{off-topic;town-square;}'')\<rparr>"
  have u: "noSectionConfig\<lparr>Members := UniqString (Members noSectionConfig)\<rparr> = noSectionConfig"
    by (simp add: noSectionConfig_def demoConfig_def UniqString_def)
  have key: "GetKeyHash demoEnv (CacheKeyPrefixTeamStandupConfig demoEnv @ ChannelId noSectionConfig)
               = ''#standup_config_town-square''"
    by (simp add: demoEnv_def noSectionConfig_def demoConfig_def)
  have h1: "MarshalConfig demoEnv (noSectionConfig\<lparr>Members := UniqString (Members noSectionConfig)\<rparr>)
     = Inr ''{channelId:town-square}''"
    unfolding u by (simp add: demoEnv_def noSectionConfig_def demoConfig_def)
  have h2: "KVSetErr demoEnv (GetKeyHash demoEnv (CacheKeyPrefixTeamStandupConfig demoEnv @ ChannelId noSectionConfig))
     ''{channelId:town-square}'' = None"
    by (simp add: demoEnv_def)
  have v: "StandupConfig_IsValid demoEnv noSectionConfig \<noteq> None"
    by (simp add: StandupConfig_IsValid_def demoEnv_def noSectionConfig_def demoConfig_def
          nineAM_def fivePM_def emptyTime_def After_def standupSectionsMinLength_def)
  have h3: "''#all_standup_channels''
     \<noteq> GetKeyHash demoEnv (CacheKeyPrefixTeamStandupConfig demoEnv @ ChannelId noSectionConfig)"
    unfolding key by simp
  have g: "GetStandupChannels demoEnv registeredWorld = Inr (Some [''off-topic'' \<mapsto> ''off-topic''])"
    by (simp add: GetStandupChannels_def KVGet_def demoEnv_def registeredWorld_def emptyWorld_def)
  have m: "MarshalChannels demoEnv [''off-topic'' \<mapsto> ''off-topic'', ''town-square'' \<mapsto> ''town-square'']
     = Inr ''{off-topic;town-square;}''"
    by (simp add: demoEnv_def)
  have um: "UnmarshalChannels demoEnv ''{off-topic;town-square;}''
     = Inr (Some [''off-topic'' \<mapsto> ''off-topic'', ''town-square'' \<mapsto> ''town-square''])"
    by (simp add: demoEnv_def)
  have h4: "\<forall>channels bytes. GetStandupChannels demoEnv registeredWorld = Inr (Some channels) \<and>
        MarshalChannels demoEnv (channels(''town-square'' \<mapsto> ''town-square'')) = Inr bytes \<longrightarrow>
        bytes \<noteq> [] \<and>
        UnmarshalChannels demoEnv bytes = Inr (Some (channels(''town-square'' \<mapsto> ''town-square'')))"
    using m um by (auto simp: g)
  have st: "KVSetErr demoEnv ''#all_standup_channels'' ''{off-topic;town-square;}'' = None"
    "GetKeyHash demoEnv (CacheKeyAllStandupChannels demoEnv) = ''#all_standup_channels''"
    by (simp_all add: demoEnv_def)
  have first: "AddStandupChannel demoEnv registeredWorld ''town-square'' = Inr (None, ?w1)"
    by (simp add: AddStandupChannel_def g setStandupChannels_def m KVSet_def st)
  note t = SaveStandupConfig_no_validation
    [where env = demoEnv and sc = noSectionConfig and data = "''{channelId:town-square}''"
       and w = emptyWorld and k = "''#all_standup_channels''"]
  note t' = SaveStandupConfig_no_validation
    [where env = demoEnv and w = registeredWorld and channelID = "''town-square''",
     THEN conjunct2, THEN conjunct2, THEN mp, OF h4]
  have r1: "SaveStandupConfig demoEnv emptyWorld noSectionConfig =
        (Inr noSectionConfig,
         emptyWorld\<lparr>kv := (kv emptyWorld)(''#standup_config_town-square'' \<mapsto> ''{channelId:town-square}'')\<rparr>)"
    using t [THEN conjunct1] h1 h2 unfolding u key by simp
  have r2: "kv (snd (SaveStandupConfig demoEnv emptyWorld noSectionConfig)) ''#all_standup_channels''
     = kv emptyWorld ''#all_standup_channels''"
    using t [THEN conjunct2, THEN conjunct1] h3 by simp
  have second: "AddStandupChannel demoEnv ?w1 ''town-square'' = Inr (None, ?w1)"
    using t' [THEN conjunct1, rule_format, OF first] .
  have kept: "GetStandupChannels demoEnv ?w1
      = Inr (Some [''off-topic'' \<mapsto> ''off-topic'', ''town-square'' \<mapsto> ''town-square''])"
    using t' [THEN conjunct2, rule_format, OF first] by (simp add: g)
  have r1': "fst (SaveStandupConfig demoEnv emptyWorld noSectionConfig) = Inr noSectionConfig"
    "kv (snd (SaveStandupConfig demoEnv emptyWorld noSectionConfig)) ''#standup_config_town-square''
       = Some ''{channelId:town-square}''"
    by (simp_all add: r1)
  show ?thesis
    using h1 h2 v r1' h3 r2 g m um first second kept by blast
qed

end
